theory Spec2Isabelle
  imports Complex_Main
begin

section \<open>Python numbers\<close>

text \<open>
  The simulation computes with Python \<open>float\<close> (IEEE binary64) and \<open>int\<close>. A finite
  binary64 value is a rational number, so a float is modelled by the rational it denotes and
  every arithmetic operation is the exact operation followed by \<open>rnd\<close>, rounding to the
  nearest value with a 53-bit significand, ties to the even significand (graduated underflow
  below \<open>2^-1022\<close> included). Infinities and NaN are outside the model: the operations are
  those of Python on results of magnitude below \<open>2^1024\<close>. Fields that hold a Python
  \<open>int\<close> at start (\<open>0\<close>, \<open>8\<close>, \<open>18\<close>) and a float later are floats here; the ints
  that occur are far below \<open>2^53\<close>, where both arithmetics agree.
\<close>

type_synonym float = rat

function ilog2 :: "int \<Rightarrow> int" where
  \<comment> \<open>\<open>\<lfloor>log\<^sub>2 n\<rfloor>\<close> for \<open>n \<ge> 1\<close>\<close>
  "ilog2 n = (if n < 2 then 0 else 1 + ilog2 (n div 2))"
  by pat_completeness auto
termination
  by (relation "measure nat") auto

declare ilog2.simps [simp del]

definition pow2 :: "int \<Rightarrow> rat" where
  \<comment> \<open>\<open>2\<^sup>k\<close>, also for negative \<open>k\<close>\<close>
  "pow2 k = (if 0 \<le> k then of_int (2 ^ nat k) else 1 / of_int (2 ^ nat (- k)))"

definition expo :: "rat \<Rightarrow> int" where
  \<comment> \<open>\<open>\<lfloor>log\<^sub>2 a\<rfloor>\<close> for \<open>a > 0\<close>\<close>
  "expo a = (if 1 \<le> a then ilog2 \<lfloor>a\<rfloor>
             else (let k = ilog2 \<lfloor>1 / a\<rfloor>
                   in if a * pow2 k = 1 then - k else - k - 1))"

definition round_half_even :: "rat \<Rightarrow> int" where
  "round_half_even q = (let f = \<lfloor>q\<rfloor>; r = q - of_int f
     in if r < 1 / 2 then f else if 1 / 2 < r then f + 1 else if even f then f else f + 1)"

definition rnd :: "rat \<Rightarrow> float" where
  "rnd v = (if v = 0 then 0
            else (let e = max (expo \<bar>v\<bar>) (- 1022);
                      u = pow2 (e - 52)
                  in sgn v * of_int (round_half_even (\<bar>v\<bar> / u)) * u))"

definition fadd :: "float \<Rightarrow> float \<Rightarrow> float" where "fadd a b = rnd (a + b)"
definition fsub :: "float \<Rightarrow> float \<Rightarrow> float" where "fsub a b = rnd (a - b)"
definition fmul :: "float \<Rightarrow> float \<Rightarrow> float" where "fmul a b = rnd (a * b)"
definition fdiv :: "float \<Rightarrow> float \<Rightarrow> float" where "fdiv a b = rnd (a / b)"

definition py_int :: "float \<Rightarrow> int" where
  \<comment> \<open>\<open>int(v)\<close> on a float truncates toward zero\<close>
  "py_int v = (if 0 \<le> v then \<lfloor>v\<rfloor> else \<lceil>v\<rceil>)"

section \<open>The \<open>random\<close> module\<close>

text \<open>
  The pseudo-random source is a sequence of raw draws (integers); each call of the \<open>random\<close> module
  takes the next one and maps it into its range, so that every value of the range is the
  image of some draw. An exhausted sequence goes on with zeros.
\<close>

type_synonym draws = "int list"

fun next_draw :: "draws \<Rightarrow> int \<times> draws" where
  "next_draw [] = (0, [])"
| "next_draw (d # ds) = (d, ds)"

definition random_random :: "draws \<Rightarrow> float \<times> draws" where
  \<comment> \<open>a 53-bit integer over \<open>2^53\<close>: a float in \<open>[0, 1)\<close>\<close>
  "random_random ds = (case next_draw ds of (d, ds') \<Rightarrow>
     (rat_of_int (d mod 9007199254740992) / 9007199254740992, ds'))"

definition random_uniform :: "float \<Rightarrow> float \<Rightarrow> draws \<Rightarrow> float \<times> draws" where
  \<comment> \<open>\<open>a + (b - a) * random()\<close>\<close>
  "random_uniform a b ds = (case random_random ds of (u, ds') \<Rightarrow>
     (fadd a (fmul (fsub b a) u), ds'))"

definition random_randint :: "int \<Rightarrow> int \<Rightarrow> draws \<Rightarrow> int \<times> draws" where
  "random_randint a b ds = (case next_draw ds of (d, ds') \<Rightarrow>
     (a + d mod (b - a + 1), ds'))"

definition random_choice :: "'a list \<Rightarrow> draws \<Rightarrow> 'a \<times> draws" where
  \<comment> \<open>only called on the non-empty literal lists of the source\<close>
  "random_choice xs ds = (case next_draw ds of (d, ds') \<Rightarrow> (xs ! nat (d mod int (length xs)), ds'))"

section \<open>Data model (\<open>temple_runner.py\<close>)\<close>

datatype GameState = MENU | PLAYING | GAME_OVER | PAUSED

datatype PlayerState = RUNNING | JUMPING | SLIDING | TURNING_LEFT | TURNING_RIGHT

record Vector3 =
  vx :: float
  vy :: float
  vz :: float

definition Vector3_add :: "Vector3 \<Rightarrow> Vector3 \<Rightarrow> Vector3" where
  "Vector3_add a b = \<lparr>vx = fadd (vx a) (vx b), vy = fadd (vy a) (vy b), vz = fadd (vz a) (vz b)\<rparr>"

definition Vector3_mul :: "Vector3 \<Rightarrow> float \<Rightarrow> Vector3" where
  "Vector3_mul a s = \<lparr>vx = fmul (vx a) s, vy = fmul (vy a) s, vz = fmul (vz a) s\<rparr>"

definition SCREEN_WIDTH :: int where "SCREEN_WIDTH = 1200"
definition SCREEN_HEIGHT :: int where "SCREEN_HEIGHT = 800"

type_synonym colour = "int \<times> int \<times> int"

definition GOLD :: colour where "GOLD = (255, 215, 0)"
definition RED :: colour where "RED = (255, 0, 0)"
definition BLUE :: colour where "BLUE = (0, 100, 255)"

subsection \<open>Camera\<close>

record Camera =
  cam_position :: Vector3
  cam_target :: Vector3
  shake_intensity :: float
  shake_duration :: int

definition Camera_init :: Camera where
  "Camera_init = \<lparr>cam_position = \<lparr>vx = 0, vy = - 50, vz = - 200\<rparr>,
                  cam_target = \<lparr>vx = 0, vy = 0, vz = 0\<rparr>,
                  shake_intensity = 0, shake_duration = 0\<rparr>"

definition Camera_update :: "Vector3 \<Rightarrow> Camera \<Rightarrow> draws \<Rightarrow> Camera \<times> draws" where
  "Camera_update player_pos c ds =
    (let target_x = fmul (vx player_pos) (rnd (3 / 10));
         target_z = fsub (vz player_pos) 200;
         p = cam_position c;
         p1 = p\<lparr>vx := fadd (vx p) (fmul (fsub target_x (vx p)) (rnd (1 / 10)))\<rparr>;
         p2 = p1\<lparr>vz := fadd (vz p1) (fmul (fsub target_z (vz p1)) (rnd (1 / 10)))\<rparr>
     in if 0 < shake_duration c
        then (case random_uniform (- shake_intensity c) (shake_intensity c) ds of
                (shake_x, ds1) \<Rightarrow>
              (case random_uniform (- shake_intensity c) (shake_intensity c) ds1 of
                (shake_y, ds2) \<Rightarrow>
                (c\<lparr>cam_position := p2\<lparr>vx := fadd (vx p2) shake_x, vy := fadd (vy p2) shake_y\<rparr>,
                   shake_duration := shake_duration c - 1\<rparr>, ds2)))
        else (c\<lparr>cam_position := p2\<rparr>, ds))"

definition add_shake :: "float \<Rightarrow> int \<Rightarrow> Camera \<Rightarrow> Camera" where
  "add_shake intensity duration c = c\<lparr>shake_intensity := intensity, shake_duration := duration\<rparr>"

definition divisor :: "float \<Rightarrow> float" where
  \<comment> \<open>the value of \<open>rel_z\<close> after the guard \<open>if rel_z <= 0: rel_z = 0.1\<close>\<close>
  "divisor rel_z = (if rel_z \<le> 0 then rnd (1 / 10) else rel_z)"

definition project_rel :: "float \<Rightarrow> float \<Rightarrow> float \<Rightarrow> int \<times> int" where
  \<comment> \<open>the body of \<open>project_3d_to_2d\<close> after the translation relative to the camera\<close>
  "project_rel rel_x rel_y rel_z =
    (let rz = divisor rel_z;
         fov = 500;
         screen_x = fadd (fdiv (fmul rel_x fov) rz) (of_int (SCREEN_WIDTH div 2));
         screen_y = fadd (fdiv (fmul rel_y fov) rz) (of_int (SCREEN_HEIGHT div 2))
     in (py_int screen_x, py_int screen_y))"

definition project_3d_to_2d :: "Camera \<Rightarrow> Vector3 \<Rightarrow> int \<times> int" where
  "project_3d_to_2d c point3d =
    project_rel (fsub (vx point3d) (vx (cam_position c)))
                (fsub (vy point3d) (vy (cam_position c)))
                (fsub (vz point3d) (vz (cam_position c)))"

subsection \<open>Player\<close>

record Player =
  position :: Vector3
  velocity :: Vector3
  state :: PlayerState
  lane :: int
  jump_velocity :: float
  slide_timer :: int
  turn_timer :: int
  invulnerable_timer :: int
  p_size :: int
  animation_frame :: int
  animation_timer :: int

definition Player_init :: Player where
  "Player_init = \<lparr>position = \<lparr>vx = 0, vy = 0, vz = 0\<rparr>,
                  velocity = \<lparr>vx = 0, vy = 0, vz = 8\<rparr>,
                  state = RUNNING, lane = 0, jump_velocity = 0, slide_timer = 0,
                  turn_timer = 0, invulnerable_timer = 0, p_size = 20,
                  animation_frame = 0, animation_timer = 0\<rparr>"

definition update_jumping :: "Player \<Rightarrow> Player" where
  "update_jumping p =
    (if state p = JUMPING
     then (let p1 = p\<lparr>position := (position p)\<lparr>vy := fadd (vy (position p)) (jump_velocity p)\<rparr>,
                       jump_velocity := fsub (jump_velocity p) (rnd (12 / 10))\<rparr>
           in if vy (position p1) \<le> 0
              then p1\<lparr>position := (position p1)\<lparr>vy := 0\<rparr>, jump_velocity := 0, state := RUNNING\<rparr>
              else p1)
     else p)"

definition update_sliding :: "Player \<Rightarrow> Player" where
  "update_sliding p =
    (if state p = SLIDING
     then (let p1 = p\<lparr>slide_timer := slide_timer p - 1\<rparr>
           in if slide_timer p1 \<le> 0 then p1\<lparr>state := RUNNING\<rparr> else p1)
     else p)"

definition update_turning :: "Player \<Rightarrow> Player" where
  "update_turning p =
    (if state p = TURNING_LEFT \<or> state p = TURNING_RIGHT
     then (let p1 = p\<lparr>turn_timer := turn_timer p - 1\<rparr>
           in if turn_timer p1 \<le> 0 then p1\<lparr>state := RUNNING\<rparr> else p1)
     else p)"

definition update_lane_x :: "Player \<Rightarrow> Player" where
  "update_lane_x p =
    (let target_x = of_int (lane p * 60);
         q = position p
     in p\<lparr>position := q\<lparr>vx := fadd (vx q) (fmul (fsub target_x (vx q)) (rnd (2 / 10)))\<rparr>\<rparr>)"

definition update_timers :: "Player \<Rightarrow> Player" where
  "update_timers p =
    (let p1 = (if 0 < invulnerable_timer p
               then p\<lparr>invulnerable_timer := invulnerable_timer p - 1\<rparr> else p);
         p2 = p1\<lparr>animation_timer := animation_timer p1 + 1\<rparr>
     in if 10 \<le> animation_timer p2
        then p2\<lparr>animation_timer := 0, animation_frame := (animation_frame p2 + 1) mod 4\<rparr>
        else p2)"

definition Player_update :: "Player \<Rightarrow> Player" where
  "Player_update p =
    update_timers (update_lane_x (update_turning (update_sliding (update_jumping
      (p\<lparr>position := Vector3_add (position p) (velocity p)\<rparr>)))))"

definition jump :: "Player \<Rightarrow> Player" where
  "jump p = (if state p = RUNNING then p\<lparr>state := JUMPING, jump_velocity := 18\<rparr> else p)"

definition slide :: "Player \<Rightarrow> Player" where
  "slide p = (if state p = RUNNING then p\<lparr>state := SLIDING, slide_timer := 30\<rparr> else p)"

definition move_left :: "Player \<Rightarrow> Player" where
  "move_left p = (if - 1 < lane p
                  then p\<lparr>lane := lane p - 1, state := TURNING_LEFT, turn_timer := 10\<rparr> else p)"

definition move_right :: "Player \<Rightarrow> Player" where
  "move_right p = (if lane p < 1
                   then p\<lparr>lane := lane p + 1, state := TURNING_RIGHT, turn_timer := 10\<rparr> else p)"

subsection \<open>Screen rectangles\<close>

text \<open>
  Modelled from the spec: \<open>pygame.Rect\<close> and its \<open>colliderect\<close> are library code, not
  part of the repository; the spec calls the test an axis-aligned bounding-box intersection
  in screen space. Edges that only touch do not intersect.
\<close>

record Rect =
  left :: int
  top :: int
  width :: int
  height :: int

definition colliderect :: "Rect \<Rightarrow> Rect \<Rightarrow> bool" where
  "colliderect a b \<longleftrightarrow>
     left a < left b + width b \<and> left b < left a + width a \<and>
     top a < top b + height b \<and> top b < top a + height a"

definition Player_get_collision_rect :: "Camera \<Rightarrow> Player \<Rightarrow> Rect" where
  "Player_get_collision_rect c p =
    (case project_3d_to_2d c (position p) of (sx, sy) \<Rightarrow>
       if state p = SLIDING
       then \<lparr>left = sx - p_size p div 2, top = sy - p_size p div 4,
             width = p_size p, height = p_size p div 2\<rparr>
       else \<lparr>left = sx - p_size p div 2, top = sy - p_size p,
             width = p_size p, height = p_size p * 2\<rparr>)"

subsection \<open>Obstacles and collectibles\<close>

record Obstacle =
  ob_position :: Vector3
  ob_type :: string
  ob_lane :: int
  ob_size :: int
  ob_active :: bool

definition Obstacle_init :: "Vector3 \<Rightarrow> string \<Rightarrow> int \<Rightarrow> Obstacle" where
  "Obstacle_init p t l = \<lparr>ob_position = p, ob_type = t, ob_lane = l, ob_size = 30, ob_active = True\<rparr>"

definition Obstacle_update :: "Player \<Rightarrow> Obstacle \<Rightarrow> Obstacle" where
  "Obstacle_update pl ob =
    (if vz (ob_position ob) < fsub (vz (position pl)) 300 then ob\<lparr>ob_active := False\<rparr> else ob)"

definition Obstacle_get_collision_rect :: "Camera \<Rightarrow> Obstacle \<Rightarrow> Rect" where
  "Obstacle_get_collision_rect c ob =
    (case project_3d_to_2d c (ob_position ob) of (sx, sy) \<Rightarrow>
       \<lparr>left = sx - ob_size ob div 2, top = sy - ob_size ob div 2,
        width = ob_size ob, height = ob_size ob\<rparr>)"

record Collectible =
  co_position :: Vector3
  co_type :: string
  co_size :: int
  co_active :: bool
  rotation :: int

definition Collectible_init :: "Vector3 \<Rightarrow> string \<Rightarrow> Collectible" where
  "Collectible_init p t = \<lparr>co_position = p, co_type = t, co_size = 15, co_active = True, rotation = 0\<rparr>"

definition Collectible_update :: "Player \<Rightarrow> Collectible \<Rightarrow> Collectible" where
  "Collectible_update pl co =
    (let c1 = co\<lparr>rotation := rotation co + 5\<rparr>
     in if vz (co_position c1) < fsub (vz (position pl)) 100 then c1\<lparr>co_active := False\<rparr> else c1)"

definition Collectible_get_collision_rect :: "Camera \<Rightarrow> Collectible \<Rightarrow> Rect" where
  "Collectible_get_collision_rect c co =
    (case project_3d_to_2d c (co_position co) of (sx, sy) \<Rightarrow>
       \<lparr>left = sx - co_size co div 2, top = sy - co_size co div 2,
        width = co_size co, height = co_size co\<rparr>)"

subsection \<open>Particles\<close>

record particle =
  pos :: Vector3
  vel :: Vector3
  color :: colour
  life :: int
  max_life :: int

definition add_particle :: "Vector3 \<Rightarrow> Vector3 \<Rightarrow> colour \<Rightarrow> int \<Rightarrow> particle list \<Rightarrow> particle list" where
  "add_particle p v col l ps =
    ps @ [\<lparr>pos = \<lparr>vx = vx p, vy = vy p, vz = vz p\<rparr>, vel = v, color = col, life = l, max_life = l\<rparr>]"

text \<open>
  \<open>ParticleSystem.update\<close> walks a copy of the list, mutates each dictionary in place and
  calls \<open>self.particles.remove(particle)\<close>, which deletes the first entry of the live list
  that compares equal to the dictionary (by value), not necessarily the object itself, and
  raises \<open>ValueError\<close> when there is none. The objects are therefore kept in a store
  (a list indexed by reference), the live list holds references, and the walk goes over the
  references of the copy.
\<close>

datatype error = ValueError

fun remove_first :: "('a \<Rightarrow> bool) \<Rightarrow> 'a list \<Rightarrow> 'a list option" where
  "remove_first P [] = None"
| "remove_first P (r # rs) =
    (if P r then Some rs
     else (case remove_first P rs of None \<Rightarrow> None | Some rs' \<Rightarrow> Some (r # rs')))"

definition particle_step :: "particle \<Rightarrow> particle" where
  "particle_step p = p\<lparr>pos := Vector3_add (pos p) (vel p), life := life p - 1\<rparr>"

fun particle_loop :: "nat list \<Rightarrow> particle list \<Rightarrow> nat list \<Rightarrow> error + (particle list \<times> nat list)" where
  "particle_loop [] store live = Inr (store, live)"
| "particle_loop (r # rs) store live =
    (let p = particle_step (store ! r);
         store1 = store[r := p]
     in if life p \<le> 0
        then (case remove_first (\<lambda>q. store1 ! q = p) live of
                None \<Rightarrow> Inl ValueError
              | Some live1 \<Rightarrow> particle_loop rs store1 live1)
        else particle_loop rs store1 live)"

definition ParticleSystem_update :: "particle list \<Rightarrow> error + particle list" where
  "ParticleSystem_update ps =
    (let refs = [0..<length ps]
     in case particle_loop refs ps refs of
          Inl e \<Rightarrow> Inl e
        | Inr (store, live) \<Rightarrow> Inr (map (\<lambda>r. store ! r) live))"

fun updates :: "nat \<Rightarrow> particle list \<Rightarrow> error + particle list" where
  "updates 0 ps = Inr ps"
| "updates (Suc k) ps = (case ParticleSystem_update ps of Inl e \<Rightarrow> Inl e | Inr ps1 \<Rightarrow> updates k ps1)"

section \<open>The session (\<open>temple_runner.py\<close>, \<open>game_logic.py\<close>)\<close>

text \<open>
  The entities reach the camera and the player through the module-level singleton
  \<open>game\<close>; it is the session itself, so the functions below take the camera and the
  player of the session they work on.
\<close>

record Game =
  g_state :: GameState
  player :: Player
  camera :: Camera
  obstacles :: "Obstacle list"
  collectibles :: "Collectible list"
  particles :: "particle list"
  score :: int
  coins :: int
  distance :: float
  speed_multiplier :: float
  difficulty :: int
  obstacle_spawn_timer :: int
  collectible_spawn_timer :: int
  high_score :: int

definition reset_game :: "Game \<Rightarrow> Game" where
  "reset_game g = g\<lparr>player := Player_init, camera := Camera_init, obstacles := [],
                     collectibles := [], particles := [], score := 0, coins := 0,
                     distance := 0, speed_multiplier := 1, difficulty := 1,
                     obstacle_spawn_timer := 0, collectible_spawn_timer := 0\<rparr>"

definition Game_init :: "int \<Rightarrow> Game" where
  \<comment> \<open>\<open>Game.__init__\<close>, with the high score read from the file\<close>
  "Game_init hs = \<lparr>g_state = MENU, player = Player_init, camera = Camera_init, obstacles = [],
                    collectibles = [], particles = [], score = 0, coins = 0, distance = 0,
                    speed_multiplier = 1, difficulty = 1, obstacle_spawn_timer = 0,
                    collectible_spawn_timer = 0, high_score = hs\<rparr>"

subsection \<open>Spawning\<close>

definition obstacle_types :: "int \<Rightarrow> string list" where
  "obstacle_types d = [''barrier'', ''gap'', ''boulder'']
     @ (if 3 \<le> d then [''moving_barrier''] else [])
     @ (if 5 \<le> d then [''spike_trap''] else [])"

definition lane_pos :: "int \<Rightarrow> float \<Rightarrow> float \<Rightarrow> Vector3" where
  \<comment> \<open>\<open>Vector3(lane * 60, h, spawn_z)\<close>\<close>
  "lane_pos l h spawn_z = \<lparr>vx = of_int (l * 60), vy = h, vz = spawn_z\<rparr>"

definition spawn_single :: "string \<Rightarrow> float \<Rightarrow> Game \<Rightarrow> draws \<Rightarrow> Game \<times> draws" where
  "spawn_single t spawn_z g ds =
    (case random_choice [- 1, 0, 1] ds of (l, ds1) \<Rightarrow>
       (g\<lparr>obstacles := obstacles g @ [Obstacle_init (lane_pos l 0 spawn_z) t l]\<rparr>, ds1))"

definition spawn_obstacle :: "Game \<Rightarrow> draws \<Rightarrow> Game \<times> draws" where
  "spawn_obstacle g ds =
    (case random_randint 0 200 ds of (r, ds1) \<Rightarrow>
     (let spawn_z = fadd (fadd (vz (position (player g))) 400) (of_int r)
      in case random_choice (obstacle_types (difficulty g)) ds1 of (t, ds2) \<Rightarrow>
         if 4 \<le> difficulty g
         then (case random_random ds2 of (u, ds3) \<Rightarrow>
                 if u < rnd (3 / 10)
                 then (case random_choice [- 1, 0, 1] ds3 of (safe_lane, ds4) \<Rightarrow>
                         (g\<lparr>obstacles := obstacles g @
                              map (\<lambda>l. Obstacle_init (lane_pos l 0 spawn_z) t l)
                                  (filter (\<lambda>l. l \<noteq> safe_lane) [- 1, 0, 1])\<rparr>, ds4))
                 else spawn_single t spawn_z g ds3)
         else spawn_single t spawn_z g ds2))"

definition spawn_collectible :: "Game \<Rightarrow> draws \<Rightarrow> Game \<times> draws" where
  "spawn_collectible g ds =
    (case random_randint 0 150 ds of (r, ds1) \<Rightarrow>
     (let spawn_z = fadd (fadd (vz (position (player g))) 300) (of_int r)
      in case random_choice [''coin'', ''coin'', ''coin'', ''gem'', ''powerup''] ds1 of
           (t, ds2) \<Rightarrow>
         (case random_random ds2 of (u, ds3) \<Rightarrow>
            if u < rnd (4 / 10)
            then (g\<lparr>collectibles := collectibles g @
                       map (\<lambda>i. Collectible_init
                                   \<lparr>vx = 0, vy = 10, vz = fadd spawn_z (of_int (i * 30))\<rparr> ''coin'')
                           [0, 1, 2]\<rparr>, ds3)
            else (case random_choice [- 1, 0, 1] ds3 of (l, ds4) \<Rightarrow>
                    (let h = (if t = ''coin'' then 10 else 20)
                     in (g\<lparr>collectibles := collectibles g @
                              [Collectible_init (lane_pos l h spawn_z) t]\<rparr>, ds4))))))"

subsection \<open>Collisions and scoring\<close>

fun burst :: "nat \<Rightarrow> float \<Rightarrow> float \<Rightarrow> Vector3 \<Rightarrow> colour \<Rightarrow> int \<Rightarrow> particle list \<Rightarrow> draws
              \<Rightarrow> particle list \<times> draws" where
  \<comment> \<open>\<open>for _ in range(n)\<close>: a velocity drawn in \<open>\<plusminus>a, \<plusminus>a, \<plusminus>b\<close>, then \<open>add_particle\<close>\<close>
  "burst 0 a b p col l ps ds = (ps, ds)"
| "burst (Suc n) a b p col l ps ds =
    (case random_uniform (- a) a ds of (v1, ds1) \<Rightarrow>
     (case random_uniform (- a) a ds1 of (v2, ds2) \<Rightarrow>
      (case random_uniform (- b) b ds2 of (v3, ds3) \<Rightarrow>
         burst n a b p col l (add_particle p \<lparr>vx = v1, vy = v2, vz = v3\<rparr> col l ps) ds3)))"

definition collect_item :: "Collectible \<Rightarrow> Game \<Rightarrow> draws \<Rightarrow> Game \<times> draws" where
  "collect_item co g ds =
    (if co_type co = ''coin''
     then (case burst 5 2 1 (co_position co) GOLD 30 (particles g) ds of (ps, ds1) \<Rightarrow>
             (g\<lparr>coins := coins g + 1, score := score g + 10, particles := ps\<rparr>, ds1))
     else if co_type co = ''gem''
     then (case burst 8 3 2 (co_position co) BLUE 40 (particles g) ds of (ps, ds1) \<Rightarrow>
             (g\<lparr>coins := coins g + 5, score := score g + 50, particles := ps\<rparr>, ds1))
     else if co_type co = ''powerup''
     then (case burst 10 4 2 (co_position co) RED 50 (particles g) ds of (ps, ds1) \<Rightarrow>
             (g\<lparr>player := (player g)\<lparr>invulnerable_timer := 180\<rparr>,
                score := score g + 100, particles := ps\<rparr>, ds1))
     else (g, ds))"

definition game_over :: "Game \<Rightarrow> draws \<Rightarrow> Game \<times> draws" where
  \<comment> \<open>\<open>save_high_score\<close> writes the file and changes nothing in the session\<close>
  "game_over g ds =
    (let g1 = g\<lparr>g_state := GAME_OVER\<rparr>;
         g2 = (if high_score g1 < score g1 then g1\<lparr>high_score := score g1\<rparr> else g1);
         g3 = g2\<lparr>camera := add_shake 10 30 (camera g2)\<rparr>
     in case burst 20 5 3 (position (player g3)) RED 60 (particles g3) ds of (ps, ds1) \<Rightarrow>
          (g3\<lparr>particles := ps\<rparr>, ds1))"

definition can_avoid :: "Player \<Rightarrow> Obstacle \<Rightarrow> bool" where
  "can_avoid p ob \<longleftrightarrow>
     (if ob_type ob = ''barrier'' \<and> state p = SLIDING then True
      else if ob_type ob = ''gap'' \<and> state p = JUMPING then True
      else False)"

fun hit_obstacle :: "Camera \<Rightarrow> Player \<Rightarrow> Rect \<Rightarrow> Obstacle list \<Rightarrow> bool" where
  \<comment> \<open>the obstacle loop: \<open>True\<close> when it reaches \<open>self.game_over(); return\<close>\<close>
  "hit_obstacle c p player_rect [] = False"
| "hit_obstacle c p player_rect (ob # obs) =
    (if ob_active ob \<and> rat_of_int \<bar>ob_lane ob - lane p\<bar> < 1 / 2
     then (if colliderect player_rect (Obstacle_get_collision_rect c ob)
              \<and> invulnerable_timer p \<le> 0
           then (if \<not> can_avoid p ob then True else hit_obstacle c p player_rect obs)
           else hit_obstacle c p player_rect obs)
     else hit_obstacle c p player_rect obs)"

text \<open>
  The collectible loop walks a copy of the list. \<open>Collectible\<close> defines no \<open>__eq__\<close>, so
  \<open>self.collectibles.remove(collectible)\<close> deletes the object itself; what is left in
  the list are the entries not collected, in their order. A collected entry leaves the
  list, so its \<open>active\<close> flag is seen by nobody afterwards.
\<close>

fun collect_loop :: "Rect \<Rightarrow> Collectible list \<Rightarrow> Game \<Rightarrow> draws \<Rightarrow> Game \<times> draws" where
  "collect_loop player_rect [] g ds = (g\<lparr>collectibles := []\<rparr>, ds)"
| "collect_loop player_rect (co # rest) g ds =
    (if co_active co \<and> colliderect player_rect (Collectible_get_collision_rect (camera g) co)
     then (case collect_item co g ds of (g1, ds1) \<Rightarrow> collect_loop player_rect rest g1 ds1)
     else (case collect_loop player_rect rest g ds of (g1, ds1) \<Rightarrow>
             (g1\<lparr>collectibles := co # collectibles g1\<rparr>, ds1)))"

definition check_collisions :: "Game \<Rightarrow> draws \<Rightarrow> Game \<times> draws" where
  "check_collisions g ds =
    (let player_rect = Player_get_collision_rect (camera g) (player g)
     in if hit_obstacle (camera g) (player g) player_rect (obstacles g)
        then game_over g ds
        else collect_loop player_rect (collectibles g) g ds)"

subsection \<open>The tick\<close>

definition update_score :: "Game \<Rightarrow> Game" where
  \<comment> \<open>lines 20 to 28 of \<open>update_game\<close>: distance, score, difficulty\<close>
  "update_score g =
    (let g1 = g\<lparr>distance := fadd (distance g) (fmul (vz (velocity (player g))) (speed_multiplier g))\<rparr>;
         g2 = g1\<lparr>score := py_int (fdiv (distance g1) 10)\<rparr>
     in if 0 < score g2 \<and> score g2 mod 500 = 0
        then (if difficulty g2 < 10
              then g2\<lparr>difficulty := difficulty g2 + 1,
                      speed_multiplier := fadd (speed_multiplier g2) (rnd (1 / 10)),
                      player := (player g2)\<lparr>velocity :=
                         (velocity (player g2))\<lparr>vz := fadd (vz (velocity (player g2))) (1 / 2)\<rparr>\<rparr>\<rparr>
              else g2)
        else g2)"

definition update_spawns :: "Game \<Rightarrow> draws \<Rightarrow> Game \<times> draws" where
  \<comment> \<open>lines 30 to 41: the two spawn timers\<close>
  "update_spawns g ds =
    (let g1 = g\<lparr>obstacle_spawn_timer := obstacle_spawn_timer g - 1\<rparr>
     in case (if obstacle_spawn_timer g1 \<le> 0
              then (case spawn_obstacle g1 ds of (g2, ds1) \<Rightarrow>
                      (g2\<lparr>obstacle_spawn_timer := max 30 (90 - difficulty g2 * 5)\<rparr>, ds1))
              else (g1, ds)) of (g3, ds2) \<Rightarrow>
        (let g4 = g3\<lparr>collectible_spawn_timer := collectible_spawn_timer g3 - 1\<rparr>
         in if collectible_spawn_timer g4 \<le> 0
            then (case spawn_collectible g4 ds2 of (g5, ds3) \<Rightarrow>
                   (case random_randint 40 80 ds3 of (t, ds4) \<Rightarrow>
                      (g5\<lparr>collectible_spawn_timer := t\<rparr>, ds4)))
            else (g4, ds2)))"

definition update_entities :: "Game \<Rightarrow> Game" where
  \<comment> \<open>lines 43 to 53: each entity is updated and the inactive ones leave their list
      (\<open>Obstacle\<close> and \<open>Collectible\<close> define no \<open>__eq__\<close>: \<open>remove\<close> deletes the object itself)\<close>
  "update_entities g =
    g\<lparr>obstacles := filter ob_active (map (Obstacle_update (player g)) (obstacles g)),
      collectibles := filter co_active (map (Collectible_update (player g)) (collectibles g))\<rparr>"

definition update_game :: "Game \<Rightarrow> draws \<Rightarrow> error + (Game \<times> draws)" where
  "update_game g ds =
    (let g1 = g\<lparr>player := Player_update (player g)\<rparr>
     in case Camera_update (position (player g1)) (camera g1) ds of (c, ds1) \<Rightarrow>
        (let g2 = update_score (g1\<lparr>camera := c\<rparr>)
         in case update_spawns g2 ds1 of (g3, ds2) \<Rightarrow>
            (let g4 = update_entities g3
             in case ParticleSystem_update (particles g4) of
                  Inl e \<Rightarrow> Inl e
                | Inr ps \<Rightarrow> Inr (check_collisions (g4\<lparr>particles := ps\<rparr>) ds2))))"

fun ticks :: "nat \<Rightarrow> Game \<Rightarrow> draws \<Rightarrow> error + (Game \<times> draws)" where
  \<comment> \<open>\<open>run\<close> with no key pressed: \<open>update\<close> is called while the session is Playing\<close>
  "ticks 0 g ds = Inr (g, ds)"
| "ticks (Suc n) g ds =
    (if g_state g = PLAYING
     then (case update_game g ds of Inl e \<Rightarrow> Inl e | Inr (g1, ds1) \<Rightarrow> ticks n g1 ds1)
     else ticks n g ds)"

subsection \<open>Sequences of player calls\<close>

text \<open>
  The calls the event loop and the tick make on the player, in any order.
\<close>

datatype action = Jump | Slide | MoveLeft | MoveRight | Update

fun act :: "action \<Rightarrow> Player \<Rightarrow> Player" where
  "act Jump p = jump p"
| "act Slide p = slide p"
| "act MoveLeft p = move_left p"
| "act MoveRight p = move_right p"
| "act Update p = Player_update p"

fun run_actions :: "action list \<Rightarrow> Player \<Rightarrow> Player" where
  "run_actions [] p = p"
| "run_actions (a # as) p = run_actions as (act a p)"

subsection \<open>Observing a jump\<close>

text \<open>
  What a jump changes: the state, the height \<open>position.y\<close>, \<open>jump_velocity\<close> and the
  vertical component of \<open>velocity\<close>, after a number of \<open>Player.update\<close> calls.
\<close>

definition jump_view :: "Player \<Rightarrow> PlayerState \<times> float \<times> float \<times> float" where
  "jump_view p = (state p, vy (position p), jump_velocity p, vy (velocity p))"

definition jumping_at :: "nat \<Rightarrow> Player \<Rightarrow> float \<Rightarrow> float \<Rightarrow> bool" where
  "jumping_at n p h v \<longleftrightarrow> jump_view ((Player_update ^^ n) p) = (JUMPING, h, v, 0)"

definition height_after :: "nat \<Rightarrow> Player \<Rightarrow> float" where
  "height_after n p = vy (position ((Player_update ^^ n) p))"

definition state_after :: "nat \<Rightarrow> Player \<Rightarrow> PlayerState" where
  "state_after n p = state ((Player_update ^^ n) p)"

subsection \<open>An example session\<close>

text \<open>
  A Playing session right after a reset, with a boulder and a coin at the player's position.
\<close>

definition collision_example :: Game where
  "collision_example = (reset_game (Game_init 0))
     \<lparr>g_state := PLAYING,
      obstacles := [Obstacle_init \<lparr>vx = 0, vy = 0, vz = 0\<rparr> ''boulder'' 0],
      collectibles := [Collectible_init \<lparr>vx = 0, vy = 0, vz = 0\<rparr> ''coin'']\<rparr>"

section \<open>The player's actions and lane\<close>

lemma lane_update_jumping: "lane (update_jumping p) = lane p"
  by (simp add: update_jumping_def Let_def)

lemma lane_update_sliding: "lane (update_sliding p) = lane p"
  by (simp add: update_sliding_def Let_def)

lemma lane_update_turning: "lane (update_turning p) = lane p"
  by (simp add: update_turning_def Let_def)

lemma lane_update_lane_x: "lane (update_lane_x p) = lane p"
  by (simp add: update_lane_x_def Let_def)

lemma lane_update_timers: "lane (update_timers p) = lane p"
  by (simp add: update_timers_def Let_def)

lemma lane_Player_update: "lane (Player_update p) = lane p"
  by (simp add: Player_update_def lane_update_timers lane_update_lane_x lane_update_turning
      lane_update_sliding lane_update_jumping)

lemma lane_act: "- 1 \<le> lane p \<Longrightarrow> lane p \<le> 1 \<Longrightarrow> - 1 \<le> lane (act a p) \<and> lane (act a p) \<le> 1"
  by (cases a) (auto simp: jump_def slide_def move_left_def move_right_def lane_Player_update)

lemma lane_run_actions:
  "- 1 \<le> lane p \<Longrightarrow> lane p \<le> 1 \<Longrightarrow>
   - 1 \<le> lane (run_actions acts p) \<and> lane (run_actions acts p) \<le> 1"
proof (induction acts arbitrary: p)
  case Nil
  then show ?case by simp
next
  case (Cons a acts)
  from lane_act[OF Cons.prems] have "- 1 \<le> lane (act a p)" "lane (act a p) \<le> 1" by simp_all
  from Cons.IH[OF this] show ?case by simp
qed

text \<open>
  C8. The lane stays within \<open>-1 .. 1\<close>: from the initial player (lane 0), after any
  sequence of \<open>jump\<close>, \<open>slide\<close>, \<open>move_left\<close>, \<open>move_right\<close> and \<open>update\<close> calls the lane
  is at least \<open>-1\<close> and at most \<open>1\<close>; \<open>move_left\<close> at lane \<open>-1\<close> and \<open>move_right\<close> at
  lane \<open>1\<close> leave the whole player unchanged.
\<close>

theorem C8_lane_bounds:
  "- 1 \<le> lane (run_actions acts Player_init) \<and> lane (run_actions acts Player_init) \<le> 1 \<and>
   move_left (p\<lparr>lane := - 1\<rparr>) = p\<lparr>lane := - 1\<rparr> \<and>
   move_right (p\<lparr>lane := 1\<rparr>) = p\<lparr>lane := 1\<rparr>"
proof -
  have "lane Player_init = 0" by (simp add: Player_init_def)
  then have "- 1 \<le> lane Player_init" "lane Player_init \<le> 1" by simp_all
  from lane_run_actions[OF this] show ?thesis
    by (simp add: move_left_def move_right_def)
qed

text \<open>
  C4, as stated, fails: \<open>move_left\<close> called on a Jumping player is not a no-op. It moves
  the player to lane \<open>-1\<close> and replaces the state Jumping by TurningLeft.
\<close>

theorem C4_counterexample:
  "state (jump Player_init) \<noteq> RUNNING \<and> move_left (jump Player_init) \<noteq> jump Player_init \<and>
   lane (move_left (jump Player_init)) = - 1 \<and> state (move_left (jump Player_init)) = TURNING_LEFT"
  by (simp add: jump_def move_left_def Player_init_def)

text \<open>
  C4, amended. Only \<open>jump\<close> and \<open>slide\<close> are guarded on the Running state: called in any
  other state they leave the player unchanged. \<open>move_left\<close> and \<open>move_right\<close> are guarded
  on the lane bound alone: in a state other than Running they still change the lane, set the
  state to TurningLeft or TurningRight and the turn timer to 10, unless the lane is already
  at its bound.
\<close>

theorem C4_action_guards:
  assumes "state p \<noteq> RUNNING"
  shows "jump p = p \<and> slide p = p \<and>
         move_left p = (if - 1 < lane p
                        then p\<lparr>lane := lane p - 1, state := TURNING_LEFT, turn_timer := 10\<rparr> else p) \<and>
         move_right p = (if lane p < 1
                         then p\<lparr>lane := lane p + 1, state := TURNING_RIGHT, turn_timer := 10\<rparr> else p)"
  using assms by (simp add: jump_def slide_def move_left_def move_right_def)


theorem C4_action_guards_witness:
  "state (jump Player_init) \<noteq> RUNNING \<and>
   jump (jump Player_init) = jump Player_init \<and> slide (jump Player_init) = jump Player_init \<and>
   move_left (jump Player_init) =
     (jump Player_init)\<lparr>lane := - 1, state := TURNING_LEFT, turn_timer := 10\<rparr> \<and>
   move_right (jump Player_init) =
     (jump Player_init)\<lparr>lane := 1, state := TURNING_RIGHT, turn_timer := 10\<rparr>"
proof -
  have h: "state (jump Player_init) \<noteq> RUNNING" by (simp add: jump_def Player_init_def)
  have l: "lane (jump Player_init) = 0" by (simp add: jump_def Player_init_def)
  from C4_action_guards[OF h] h l show ?thesis by simp
qed

section \<open>Projection\<close>

lemma rnd_tenth: "rnd (1 / 10) = 3602879701896397 / 36028797018963968"
  by code_simp

lemma divisor_pos: "0 < divisor rel_z"
  by (simp add: divisor_def rnd_tenth)

text \<open>
  C7, as stated, fails: the divisor is not bounded below by \<open>0.1\<close>. For a point
  \<open>0.0625\<close> ahead of the initial camera the relative depth is \<open>0.0625\<close>, it is used as it
  is, and the projection differs from the one computed with \<open>0.1\<close>.
\<close>

theorem C7_counterexample:
  "fsub (vz \<lparr>vx = 1, vy = 0, vz = - (3199 / 16)\<rparr>) (vz (cam_position Camera_init)) = 1 / 16 \<and>
   divisor (1 / 16) = 1 / 16 \<and> (1 / 16 :: rat) < rnd (1 / 10) \<and>
   project_3d_to_2d Camera_init \<lparr>vx = 1, vy = 0, vz = - (3199 / 16)\<rparr> = (8600, 400400) \<and>
   project_rel 1 50 (rnd (1 / 10)) = (5600, 250400)"
  by code_simp

text \<open>
  C7, amended. The guard replaces the relative depth by \<open>0.1\<close> exactly when it is at most
  zero: for such a point \<open>project_3d_to_2d\<close> is the projection computed with depth
  \<open>0.1\<close>. The divisor is positive for every point (no division by zero, no sign inversion),
  and a positive relative depth is used unchanged, however small.
\<close>

theorem C7_projection_guard:
  assumes "fsub (vz point3d) (vz (cam_position c)) \<le> 0"
  shows "project_3d_to_2d c point3d =
           project_rel (fsub (vx point3d) (vx (cam_position c)))
                       (fsub (vy point3d) (vy (cam_position c))) (rnd (1 / 10)) \<and>
         divisor (fsub (vz point3d) (vz (cam_position c))) = rnd (1 / 10) \<and>
         0 < divisor r \<and> (0 < r \<longrightarrow> divisor r = r)"
  using assms by (simp add: project_3d_to_2d_def project_rel_def divisor_def rnd_tenth)


theorem C7_projection_guard_witness:
  "fsub (vz \<lparr>vx = 0, vy = 0, vz = - 300\<rparr>) (vz (cam_position Camera_init)) \<le> 0 \<and>
   project_3d_to_2d Camera_init \<lparr>vx = 0, vy = 0, vz = - 300\<rparr> = (600, 250400) \<and>
   (0 :: rat) < 1 \<and> divisor 1 = 1"
proof -
  have h: "fsub (vz \<lparr>vx = 0, vy = 0, vz = - 300\<rparr>) (vz (cam_position Camera_init)) \<le> 0"
    by code_simp
  have e: "project_rel (fsub (vx \<lparr>vx = 0, vy = 0, vz = - 300\<rparr>) (vx (cam_position Camera_init)))
             (fsub (vy \<lparr>vx = 0, vy = 0, vz = - 300\<rparr>) (vy (cam_position Camera_init)))
             (rnd (1 / 10)) = (600, 250400)"
    by code_simp
  from C7_projection_guard[OF h, of 1] e h show ?thesis by simp
qed

section \<open>Particles\<close>

lemma remove_first_append:
  "\<forall>r\<in>set xs. \<not> P r \<Longrightarrow> P y \<Longrightarrow> remove_first P (xs @ y # ys) = Some (xs @ ys)"
  by (induction xs) auto

lemma life_particle_step: "life (particle_step q) = life q - 1"
  by (simp add: particle_step_def)

lemma particle_loop_inv:
  "n - k = m \<Longrightarrow> k \<le> n \<Longrightarrow> length store = n \<Longrightarrow>
   particle_loop [k..<n] store (filter (\<lambda>r. 0 < life (store ! r)) [0..<k] @ [k..<n]) =
     Inr (take k store @ map particle_step (drop k store),
          filter (\<lambda>r. 0 < life ((take k store @ map particle_step (drop k store)) ! r)) [0..<n])"
proof (induction m arbitrary: k store)
  case 0
  then have "k = n" by simp
  with 0 show ?case by simp
next
  case (Suc m)
  then have kn: "k < n" by simp
  define p where "p = particle_step (store ! k)"
  define store1 where "store1 = store[k := p]"
  define F where "F = filter (\<lambda>r. 0 < life (store ! r)) [0..<k]"
  have len1: "length store1 = n" using Suc.prems by (simp add: store1_def)
  have upt: "[k..<n] = k # [Suc k..<n]" using kn by (simp add: upt_conv_Cons)
  have same: "\<And>r. r < k \<Longrightarrow> store1 ! r = store ! r" by (simp add: store1_def)
  have atk: "store1 ! k = p" using kn Suc.prems by (simp add: store1_def)
  have F1: "filter (\<lambda>r. 0 < life (store1 ! r)) [0..<k] = F"
    unfolding F_def by (rule filter_cong) (auto simp: same)
  have live1: "filter (\<lambda>r. 0 < life (store1 ! r)) [0..<Suc k] = F @ (if 0 < life p then [k] else [])"
    using F1 atk by simp
  have tk: "take (Suc k) store1 = take k store @ [p]"
    using kn Suc.prems by (simp add: store1_def take_Suc_conv_app_nth)
  have dk: "drop (Suc k) store1 = drop (Suc k) store" by (simp add: store1_def)
  have final: "take (Suc k) store1 @ map particle_step (drop (Suc k) store1) =
               take k store @ map particle_step (drop k store)"
    using kn Suc.prems by (simp add: tk dk p_def Cons_nth_drop_Suc[symmetric])
  have IH: "particle_loop [Suc k..<n] store1
              (filter (\<lambda>r. 0 < life (store1 ! r)) [0..<Suc k] @ [Suc k..<n]) =
            Inr (take k store @ map particle_step (drop k store),
                 filter (\<lambda>r. 0 < life ((take k store @ map particle_step (drop k store)) ! r)) [0..<n])"
    using Suc.IH[of "Suc k" store1] Suc.prems kn len1 by (simp add: final)
  show ?case
  proof (cases "life p \<le> 0")
    case True
    have "\<forall>r\<in>set F. \<not> store1 ! r = p"
    proof
      fix r assume "r \<in> set F"
      then have "r < k" "0 < life (store ! r)" by (auto simp: F_def)
      with True same show "\<not> store1 ! r = p" by auto
    qed
    from remove_first_append[of F "\<lambda>q. store1 ! q = p" k "[Suc k..<n]", OF this atk]
    have rm: "remove_first (\<lambda>q. store1 ! q = p) (F @ k # [Suc k..<n]) = Some (F @ [Suc k..<n])" .
    have "particle_loop [k..<n] store (F @ [k..<n]) = particle_loop [Suc k..<n] store1 (F @ [Suc k..<n])"
      using True rm by (simp add: upt p_def[symmetric] store1_def[symmetric] Let_def)
    also have "\<dots> = particle_loop [Suc k..<n] store1
              (filter (\<lambda>r. 0 < life (store1 ! r)) [0..<Suc k] @ [Suc k..<n])"
      unfolding live1 using True by simp
    finally show ?thesis using IH by (simp add: F_def)
  next
    case False
    have "particle_loop [k..<n] store (F @ [k..<n]) = particle_loop [Suc k..<n] store1 (F @ k # [Suc k..<n])"
      using False by (simp add: upt p_def[symmetric] store1_def[symmetric] Let_def)
    also have "\<dots> = particle_loop [Suc k..<n] store1
              (filter (\<lambda>r. 0 < life (store1 ! r)) [0..<Suc k] @ [Suc k..<n])"
      unfolding live1 using False by simp
    finally show ?thesis using IH by (simp add: F_def)
  qed
qed

lemma ParticleSystem_update_eq:
  "ParticleSystem_update ps = Inr (filter (\<lambda>q. 1 \<le> life q) (map particle_step ps))"
proof -
  let ?st = "map particle_step ps"
  have loop: "particle_loop [0..<length ps] ps [0..<length ps] =
        Inr (?st, filter (\<lambda>r. 0 < life (?st ! r)) [0..<length ps])"
    using particle_loop_inv[of "length ps" 0 "length ps" ps] by simp
  have "map (\<lambda>r. ?st ! r) (filter (\<lambda>r. 0 < life (?st ! r)) [0..<length ?st]) =
        filter (\<lambda>q. 0 < life q) (map (\<lambda>r. ?st ! r) [0..<length ?st])"
    by (simp add: filter_map comp_def)
  also have "\<dots> = filter (\<lambda>q. 0 < life q) ?st" by (simp only: map_nth)
  also have "\<dots> = filter (\<lambda>q. 1 \<le> life q) ?st" by (rule filter_cong) auto
  finally have m: "map (\<lambda>r. ?st ! r) (filter (\<lambda>r. 0 < life (?st ! r)) [0..<length ps]) =
        filter (\<lambda>q. 1 \<le> life q) ?st" by simp
  show ?thesis by (simp add: ParticleSystem_update_def Let_def loop m)
qed

lemma updates_total: "\<exists>qs. updates k ps = Inr qs"
  by (induction k arbitrary: ps) (simp_all add: ParticleSystem_update_eq)

lemma updates_Suc: "updates (Suc k) ps = updates k (filter (\<lambda>q. 1 \<le> life q) (map particle_step ps))"
  by (simp add: ParticleSystem_update_eq)

lemma life_funpow_step: "life ((particle_step ^^ k) q) = life q - int k"
  by (induction k) (simp_all add: life_particle_step)

lemma updates_keeps:
  "int k < life q \<Longrightarrow>
   updates k (ps @ [q]) =
     (case updates k ps of Inl e \<Rightarrow> Inl e | Inr qs \<Rightarrow> Inr (qs @ [(particle_step ^^ k) q]))"
proof (induction k arbitrary: ps q)
  case 0
  show ?case by simp
next
  case (Suc k)
  then have "int k < life (particle_step q)" "1 \<le> life (particle_step q)"
    by (simp_all add: life_particle_step)
  moreover have fp: "(particle_step ^^ Suc k) q = (particle_step ^^ k) (particle_step q)"
    by (simp add: funpow_swap1)
  ultimately show ?case
    using Suc.IH[of "particle_step q" "filter (\<lambda>q. 1 \<le> life q) (map particle_step ps)"]
    unfolding updates_Suc fp by simp
qed

lemma updates_drops:
  "life q = int k \<Longrightarrow> 0 < k \<Longrightarrow> updates k (ps @ [q]) = updates k ps"
proof (induction k arbitrary: ps q)
  case 0
  then show ?case by simp
next
  case (Suc k)
  show ?case
  proof (cases "k = 0")
    case True
    with Suc.prems have "life (particle_step q) = 0" by (simp add: life_particle_step)
    then show ?thesis by (simp only: updates_Suc) simp
  next
    case False
    with Suc.prems have l: "life (particle_step q) = int k" "0 < k" by (simp_all add: life_particle_step)
    then have "1 \<le> life (particle_step q)" by simp
    with Suc.IH[OF l, of "filter (\<lambda>q. 1 \<le> life q) (map particle_step ps)"]
    show ?thesis by (simp only: updates_Suc) simp
  qed
qed

text \<open>
  C10. Particle lifetimes are exact. \<open>ParticleSystem.update\<close> never raises; it leaves
  exactly the particles whose life, decreased by one, is at least \<open>1\<close>, each advanced by
  one step (life minus exactly one). A particle added with life \<open>L > 0\<close> is still the
  last entry of the pool after \<open>k < L\<close> updates, with life \<open>L - k\<close>, and after the
  \<open>L\<close>-th update the pool is what it would be had the particle never been added.
\<close>

theorem C10_particle_lifetimes:
  assumes "0 < L" and "int k < L"
  shows "ParticleSystem_update ps = Inr (filter (\<lambda>q. 1 \<le> life q) (map particle_step ps)) \<and>
         life (particle_step q) = life q - 1 \<and>
         (\<exists>qs. updates k ps = Inr qs \<and>
               updates k (add_particle p v col L ps) =
                 Inr (qs @ [(particle_step ^^ k) (last (add_particle p v col L ps))])) \<and>
         life ((particle_step ^^ k) (last (add_particle p v col L ps))) = L - int k \<and>
         updates (nat L) (add_particle p v col L ps) = updates (nat L) ps"
proof -
  define new where "new = last (add_particle p v col L ps)"
  have ap: "add_particle p v col L ps = ps @ [new]" and ln: "life new = L"
    by (simp_all add: new_def add_particle_def)
  obtain qs where qs: "updates k ps = Inr qs" using updates_total by blast
  have keep: "updates k (ps @ [new]) = Inr (qs @ [(particle_step ^^ k) new])"
    using updates_keeps[of k new ps] assms(2) ln qs by simp
  have drop: "updates (nat L) (ps @ [new]) = updates (nat L) ps"
    using updates_drops[of new "nat L" ps] assms(1) ln by simp
  show ?thesis
    using qs keep drop assms
    by (simp add: ParticleSystem_update_eq life_particle_step life_funpow_step ap[symmetric] new_def[symmetric] ln)
qed

lemma fadd_0_1: "fadd 0 1 = 1"
  by code_simp

theorem C10_particle_lifetimes_witness:
  "(0::int) < 2 \<and> int 1 < 2 \<and>
   ParticleSystem_update
     [\<lparr>pos = \<lparr>vx = 0, vy = 0, vz = 0\<rparr>, vel = \<lparr>vx = 1, vy = 1, vz = 1\<rparr>, color = RED,
       life = 1, max_life = 1\<rparr>] = Inr [] \<and>
   updates 1 (add_particle \<lparr>vx = 0, vy = 0, vz = 0\<rparr> \<lparr>vx = 1, vy = 1, vz = 1\<rparr> GOLD 2
     [\<lparr>pos = \<lparr>vx = 0, vy = 0, vz = 0\<rparr>, vel = \<lparr>vx = 1, vy = 1, vz = 1\<rparr>, color = RED,
       life = 1, max_life = 1\<rparr>]) =
     Inr [\<lparr>pos = \<lparr>vx = 1, vy = 1, vz = 1\<rparr>, vel = \<lparr>vx = 1, vy = 1, vz = 1\<rparr>, color = GOLD,
           life = 1, max_life = 2\<rparr>] \<and>
   updates 2 (add_particle \<lparr>vx = 0, vy = 0, vz = 0\<rparr> \<lparr>vx = 1, vy = 1, vz = 1\<rparr> GOLD 2
     [\<lparr>pos = \<lparr>vx = 0, vy = 0, vz = 0\<rparr>, vel = \<lparr>vx = 1, vy = 1, vz = 1\<rparr>, color = RED,
       life = 1, max_life = 1\<rparr>]) = Inr []"
proof -
  let ?q0 = "\<lparr>pos = \<lparr>vx = 0, vy = 0, vz = 0\<rparr>, vel = \<lparr>vx = 1, vy = 1, vz = 1\<rparr>, color = RED,
       life = 1, max_life = 1\<rparr>"
  let ?o = "\<lparr>vx = 0, vy = 0, vz = 0\<rparr>" and ?v = "\<lparr>vx = 1, vy = 1, vz = 1\<rparr>"
  have h1: "(0::int) < 2" and h2: "int 1 < 2" by simp_all
  have u1: "updates 1 [?q0] = Inr []"
    by (simp add: ParticleSystem_update_eq life_particle_step)
  have u2: "updates 2 [?q0] = Inr []"
    by (simp add: ParticleSystem_update_eq life_particle_step numeral_2_eq_2)
  have st: "particle_step (last (add_particle ?o ?v GOLD 2 [?q0])) =
        \<lparr>pos = \<lparr>vx = 1, vy = 1, vz = 1\<rparr>, vel = ?v, color = GOLD, life = 1, max_life = 2\<rparr>"
    by (simp add: add_particle_def particle_step_def Vector3_add_def fadd_0_1)
  note T = C10_particle_lifetimes[OF h1 h2, of "[?q0]" ?q0 ?o ?v GOLD]
  from T have "ParticleSystem_update [?q0] = Inr (filter (\<lambda>q. 1 \<le> life q) (map particle_step [?q0]))"
    by (rule conjunct1)
  then have a: "ParticleSystem_update [?q0] = Inr []" by (simp add: life_particle_step)
  from T obtain qs where q: "updates 1 [?q0] = Inr qs"
    "updates 1 (add_particle ?o ?v GOLD 2 [?q0]) =
       Inr (qs @ [(particle_step ^^ 1) (last (add_particle ?o ?v GOLD 2 [?q0]))])"
    by blast
  from q(1)[unfolded u1] have e: "qs = []" by simp
  have fp: "(particle_step ^^ 1) (last (add_particle ?o ?v GOLD 2 [?q0])) =
        \<lparr>pos = \<lparr>vx = 1, vy = 1, vz = 1\<rparr>, vel = ?v, color = GOLD, life = 1, max_life = 2\<rparr>"
    using st by simp
  from q(2)[unfolded e fp] have b: "updates 1 (add_particle ?o ?v GOLD 2 [?q0]) =
       Inr [\<lparr>pos = \<lparr>vx = 1, vy = 1, vz = 1\<rparr>, vel = ?v, color = GOLD, life = 1, max_life = 2\<rparr>]"
    by (simp only: append_Nil)
  have n2: "nat 2 = 2" by simp
  from T have "updates (nat 2) (add_particle ?o ?v GOLD 2 [?q0]) = updates (nat 2) [?q0]"
    by blast
  then have c: "updates 2 (add_particle ?o ?v GOLD 2 [?q0]) = Inr []"
    unfolding n2 u2 .
  from h1 h2 a b c show ?thesis by blast
qed

section \<open>Collisions\<close>

lemma lane_match: "rat_of_int \<bar>a - b\<bar> < 1 / 2 \<longleftrightarrow> a = b"
proof (cases "a = b")
  case True
  then show ?thesis by simp
next
  case False
  then have "1 \<le> \<bar>a - b\<bar>" by simp
  then have "(1::rat) \<le> rat_of_int \<bar>a - b\<bar>" by (simp only: of_int_1_le_iff)
  with False show ?thesis by simp
qed

lemma can_avoid_iff:
  "can_avoid p ob \<longleftrightarrow>
     ob_type ob = ''barrier'' \<and> state p = SLIDING \<or> ob_type ob = ''gap'' \<and> state p = JUMPING"
  by (simp add: can_avoid_def)

lemma hit_obstacle_iff:
  "hit_obstacle c p pr obs \<longleftrightarrow>
     (\<exists>ob\<in>set obs. ob_active ob \<and> ob_lane ob = lane p \<and>
        colliderect pr (Obstacle_get_collision_rect c ob) \<and> invulnerable_timer p \<le> 0 \<and>
        \<not> can_avoid p ob)"
proof (induction obs)
  case Nil
  show ?case by simp
next
  case (Cons ob obs)
  show ?case unfolding hit_obstacle.simps lane_match using Cons.IH by auto
qed

lemma burst_appends:
  "burst n a b p col l ps ds = (ps', ds') \<Longrightarrow>
   \<exists>new. ps' = ps @ new \<and> length new = n \<and>
         list_all (\<lambda>q. color q = col \<and> life q = l \<and> max_life q = l \<and> pos q = p) new"
proof (induction n arbitrary: ps ds)
  case 0
  then show ?case by simp
next
  case (Suc n)
  obtain v1 ds1 where r1: "random_uniform (- a) a ds = (v1, ds1)" by (cases "random_uniform (- a) a ds")
  obtain v2 ds2 where r2: "random_uniform (- a) a ds1 = (v2, ds2)" by (cases "random_uniform (- a) a ds1")
  obtain v3 ds3 where r3: "random_uniform (- b) b ds2 = (v3, ds3)" by (cases "random_uniform (- b) b ds2")
  from Suc.prems have
    "burst n a b p col l (add_particle p \<lparr>vx = v1, vy = v2, vz = v3\<rparr> col l ps) ds3 = (ps', ds')"
    by (simp add: r1 r2 r3)
  from Suc.IH[OF this] obtain new where
    n: "ps' = add_particle p \<lparr>vx = v1, vy = v2, vz = v3\<rparr> col l ps @ new" "length new = n"
       "list_all (\<lambda>q. color q = col \<and> life q = l \<and> max_life q = l \<and> pos q = p) new"
    by blast
  let ?q = "\<lparr>pos = \<lparr>vx = vx p, vy = vy p, vz = vz p\<rparr>, vel = \<lparr>vx = v1, vy = v2, vz = v3\<rparr>,
             color = col, life = l, max_life = l\<rparr>"
  have "ps' = ps @ (?q # new)" using n(1) by (simp add: add_particle_def)
  moreover have "length (?q # new) = Suc n" using n(2) by simp
  moreover have "list_all (\<lambda>q. color q = col \<and> life q = l \<and> max_life q = l \<and> pos q = p) (?q # new)"
    using n(3) by simp
  ultimately show ?case by blast
qed

lemma game_over_effect:
  "game_over g ds = (g', ds') \<Longrightarrow>
   g_state g' = GAME_OVER \<and> coins g' = coins g \<and> collectibles g' = collectibles g \<and>
   score g' = score g \<and> player g' = player g \<and> obstacles g' = obstacles g \<and>
   (\<exists>new. particles g' = particles g @ new \<and> length new = 20 \<and>
      list_all (\<lambda>q. color q = RED \<and> life q = 60 \<and> max_life q = 60 \<and> pos q = position (player g)) new)"
proof -
  assume a: "game_over g ds = (g', ds')"
  define g3 where "g3 = (let g1 = g\<lparr>g_state := GAME_OVER\<rparr>;
         g2 = (if high_score g1 < score g1 then g1\<lparr>high_score := score g1\<rparr> else g1)
     in g2\<lparr>camera := add_shake 10 30 (camera g2)\<rparr>)"
  have f: "g_state g3 = GAME_OVER" "coins g3 = coins g" "collectibles g3 = collectibles g"
    "score g3 = score g" "player g3 = player g" "obstacles g3 = obstacles g" "particles g3 = particles g"
    by (simp_all add: g3_def Let_def)
  obtain ps ds1 where b: "burst 20 5 3 (position (player g3)) RED 60 (particles g3) ds = (ps, ds1)"
    by (cases "burst 20 5 3 (position (player g3)) RED 60 (particles g3) ds")
  have "game_over g ds = (g3\<lparr>particles := ps\<rparr>, ds1)"
    unfolding game_over_def g3_def[symmetric, unfolded Let_def] Let_def using b by simp
  with a have g': "g' = g3\<lparr>particles := ps\<rparr>" by simp
  from burst_appends[OF b] f show ?thesis by (simp add: g')
qed

lemma collect_item_state: "g_state (fst (collect_item co g ds)) = g_state g"
  by (simp add: collect_item_def split: prod.splits)

lemma collect_item_camera: "camera (fst (collect_item co g ds)) = camera g"
  by (simp add: collect_item_def split: prod.splits)

lemma collect_loop_state: "g_state (fst (collect_loop pr cs g ds)) = g_state g"
proof (induction cs arbitrary: g ds)
  case Nil
  show ?case by simp
next
  case (Cons co cs)
  show ?case
  proof (cases "co_active co \<and> colliderect pr (Collectible_get_collision_rect (camera g) co)")
    case True
    obtain g1 ds1 where c: "collect_item co g ds = (g1, ds1)" by (cases "collect_item co g ds")
    have "g_state g1 = g_state g" using collect_item_state[of co g ds] c by simp
    with Cons.IH[of g1 ds1] True c show ?thesis by simp
  next
    case False
    obtain g1 ds1 where c: "collect_loop pr cs g ds = (g1, ds1)" by (cases "collect_loop pr cs g ds")
    with Cons.IH[of g ds] have "g_state g1 = g_state g" by simp
    with False c show ?thesis by auto
  qed
qed

text \<open>
  C5. In a Playing session \<open>check_collisions\<close> ends the run exactly when some active
  obstacle in the player's lane has a screen rectangle that intersects the player's, the
  invulnerability timer is at most zero, and the pairing is neither barrier with Sliding nor
  gap with Jumping. So a barrier overlap is survived exactly when Sliding, a gap overlap
  exactly when Jumping, any other obstacle type is fatal in every state, and nothing is
  fatal while the timer is positive. Otherwise the session stays Playing.
\<close>

theorem C5_avoidance_rule:
  assumes "g_state g = PLAYING"
  shows "(g_state (fst (check_collisions g ds)) = GAME_OVER \<longleftrightarrow>
          (\<exists>ob\<in>set (obstacles g). ob_active ob \<and> ob_lane ob = lane (player g) \<and>
             colliderect (Player_get_collision_rect (camera g) (player g))
                         (Obstacle_get_collision_rect (camera g) ob) \<and>
             invulnerable_timer (player g) \<le> 0 \<and>
             \<not> (ob_type ob = ''barrier'' \<and> state (player g) = SLIDING) \<and>
             \<not> (ob_type ob = ''gap'' \<and> state (player g) = JUMPING))) \<and>
         (g_state (fst (check_collisions g ds)) = GAME_OVER \<or>
          g_state (fst (check_collisions g ds)) = PLAYING)"
proof (cases "hit_obstacle (camera g) (player g) (Player_get_collision_rect (camera g) (player g)) (obstacles g)")
  case True
  obtain g' ds' where go: "game_over g ds = (g', ds')" by (cases "game_over g ds")
  from game_over_effect[OF go] have "g_state g' = GAME_OVER" by simp
  with True go have "g_state (fst (check_collisions g ds)) = GAME_OVER"
    by (simp add: check_collisions_def Let_def)
  with True show ?thesis by (auto simp: hit_obstacle_iff can_avoid_iff)
next
  case False
  then have "g_state (fst (check_collisions g ds)) = PLAYING"
    using assms by (simp add: check_collisions_def Let_def collect_loop_state)
  with False show ?thesis by (auto simp: hit_obstacle_iff can_avoid_iff)
qed

text \<open>
  C9. When the obstacle loop of \<open>check_collisions\<close> finds a fatal hit, the collectible
  phase does not run: coins, score, the collectible list (with the entries' active flags)
  and the player (its invulnerability timer included) are unchanged, the session is in
  GameOver, and the only particles added are the twenty red ones of the explosion at the
  player's position, with life 60.
\<close>

theorem C9_fatal_hit_skips_collectibles:
  assumes "hit_obstacle (camera g) (player g)
             (Player_get_collision_rect (camera g) (player g)) (obstacles g)"
  shows "coins (fst (check_collisions g ds)) = coins g \<and>
         collectibles (fst (check_collisions g ds)) = collectibles g \<and>
         score (fst (check_collisions g ds)) = score g \<and>
         player (fst (check_collisions g ds)) = player g \<and>
         g_state (fst (check_collisions g ds)) = GAME_OVER \<and>
         (\<exists>new. particles (fst (check_collisions g ds)) = particles g @ new \<and> length new = 20 \<and>
            list_all (\<lambda>q. color q = RED \<and> life q = 60 \<and> max_life q = 60 \<and>
                           pos q = position (player g)) new)"
proof -
  obtain g' ds' where go: "game_over g ds = (g', ds')" by (cases "game_over g ds")
  from assms go have "fst (check_collisions g ds) = g'" by (simp add: check_collisions_def Let_def)
  with game_over_effect[OF go] show ?thesis by simp
qed

lemma ex_player_rect:
  "Player_get_collision_rect (camera collision_example) (player collision_example) =
     \<lparr>left = 590, top = 505, width = 20, height = 40\<rparr>"
  by code_simp

lemma ex_obstacle_rect:
  "Obstacle_get_collision_rect (camera collision_example) (hd (obstacles collision_example)) =
     \<lparr>left = 585, top = 510, width = 30, height = 30\<rparr>"
  by code_simp

lemma ex_collectible_rect:
  "Collectible_get_collision_rect (camera collision_example) (hd (collectibles collision_example)) =
     \<lparr>left = 593, top = 518, width = 15, height = 15\<rparr>"
  by code_simp

lemma ex_fields:
  "g_state collision_example = PLAYING"
  "player collision_example = Player_init"
  "obstacles collision_example = [Obstacle_init \<lparr>vx = 0, vy = 0, vz = 0\<rparr> ''boulder'' 0]"
  "collectibles collision_example = [Collectible_init \<lparr>vx = 0, vy = 0, vz = 0\<rparr> ''coin'']"
  "coins collision_example = 0" "score collision_example = 0"
  by (simp_all add: collision_example_def reset_game_def)

lemma ex_overlap_obstacle:
  "colliderect (Player_get_collision_rect (camera collision_example) (player collision_example))
     (Obstacle_get_collision_rect (camera collision_example) (hd (obstacles collision_example)))"
  by (simp add: ex_player_rect ex_obstacle_rect colliderect_def)

lemma ex_overlap_collectible:
  "colliderect (Player_get_collision_rect (camera collision_example) (player collision_example))
     (Collectible_get_collision_rect (camera collision_example) (hd (collectibles collision_example)))"
  by (simp add: ex_player_rect ex_collectible_rect colliderect_def)

lemma ex_hit:
  "hit_obstacle (camera collision_example) (player collision_example)
     (Player_get_collision_rect (camera collision_example) (player collision_example))
     (obstacles collision_example)"
proof -
  let ?ob = "hd (obstacles collision_example)"
  have "?ob \<in> set (obstacles collision_example)" by (simp add: ex_fields)
  moreover have "ob_active ?ob \<and> ob_lane ?ob = lane (player collision_example) \<and>
      invulnerable_timer (player collision_example) \<le> 0 \<and>
      \<not> can_avoid (player collision_example) ?ob"
    by (simp add: ex_fields Obstacle_init_def Player_init_def can_avoid_def)
  ultimately show ?thesis unfolding hit_obstacle_iff using ex_overlap_obstacle by blast
qed

theorem C5_avoidance_rule_witness:
  "g_state collision_example = PLAYING \<and>
   ob_type (hd (obstacles collision_example)) = ''boulder'' \<and>
   g_state (fst (check_collisions collision_example [])) = GAME_OVER"
proof -
  let ?ob = "hd (obstacles collision_example)"
  have h: "g_state collision_example = PLAYING" by (rule ex_fields)
  have m: "?ob \<in> set (obstacles collision_example)" by (simp add: ex_fields)
  have f: "ob_active ?ob \<and> ob_lane ?ob = lane (player collision_example) \<and>
      invulnerable_timer (player collision_example) \<le> 0 \<and> ob_type ?ob = ''boulder''"
    by (simp add: ex_fields Obstacle_init_def Player_init_def)
  have "\<exists>ob\<in>set (obstacles collision_example). ob_active ob \<and>
          ob_lane ob = lane (player collision_example) \<and>
          colliderect (Player_get_collision_rect (camera collision_example) (player collision_example))
                      (Obstacle_get_collision_rect (camera collision_example) ob) \<and>
          invulnerable_timer (player collision_example) \<le> 0 \<and>
          \<not> (ob_type ob = ''barrier'' \<and> state (player collision_example) = SLIDING) \<and>
          \<not> (ob_type ob = ''gap'' \<and> state (player collision_example) = JUMPING)"
    using m f ex_overlap_obstacle by (intro bexI[of _ ?ob]) simp_all
  with C5_avoidance_rule[OF h, of "[]"] h f show ?thesis by simp
qed

theorem C9_fatal_hit_skips_collectibles_witness:
  "hit_obstacle (camera collision_example) (player collision_example)
     (Player_get_collision_rect (camera collision_example) (player collision_example))
     (obstacles collision_example) \<and>
   co_active (hd (collectibles collision_example)) \<and>
   colliderect (Player_get_collision_rect (camera collision_example) (player collision_example))
     (Collectible_get_collision_rect (camera collision_example) (hd (collectibles collision_example))) \<and>
   coins (fst (check_collisions collision_example [])) = 0 \<and>
   score (fst (check_collisions collision_example [])) = 0 \<and>
   collectibles (fst (check_collisions collision_example [])) =
     [Collectible_init \<lparr>vx = 0, vy = 0, vz = 0\<rparr> ''coin''] \<and>
   length (particles (fst (check_collisions collision_example []))) = 20"
proof -
  have a: "co_active (hd (collectibles collision_example))"
    by (simp add: ex_fields Collectible_init_def)
  have pz: "particles collision_example = []" by (simp add: collision_example_def reset_game_def)
  from C9_fatal_hit_skips_collectibles[OF ex_hit, of "[]"] ex_hit a ex_overlap_collectible
  show ?thesis by (auto simp: ex_fields pz)
qed

section \<open>The jump\<close>

lemma view_move:
  "jump_view (p\<lparr>position := Vector3_add (position p) (velocity p)\<rparr>) =
     (state p, fadd (vy (position p)) (vy (velocity p)), jump_velocity p, vy (velocity p))"
  by (simp add: jump_view_def Vector3_add_def)

lemma view_jumping:
  "state p = JUMPING \<Longrightarrow>
   jump_view (update_jumping p) =
     (if fadd (vy (position p)) (jump_velocity p) \<le> 0 then (RUNNING, 0, 0, vy (velocity p))
      else (JUMPING, fadd (vy (position p)) (jump_velocity p),
            fsub (jump_velocity p) (rnd (12 / 10)), vy (velocity p)))"
  by (simp add: jump_view_def update_jumping_def Let_def)

lemma view_sliding: "state p \<noteq> SLIDING \<Longrightarrow> jump_view (update_sliding p) = jump_view p"
  by (simp add: jump_view_def update_sliding_def)

lemma view_turning:
  "state p \<noteq> TURNING_LEFT \<Longrightarrow> state p \<noteq> TURNING_RIGHT \<Longrightarrow>
   jump_view (update_turning p) = jump_view p"
  by (simp add: jump_view_def update_turning_def)

lemma view_lane_x: "jump_view (update_lane_x p) = jump_view p"
  by (simp add: jump_view_def update_lane_x_def Let_def)

lemma view_timers: "jump_view (update_timers p) = jump_view p"
  by (simp add: jump_view_def update_timers_def Let_def)

lemma view_state: "jump_view p = (s, h, v, w) \<Longrightarrow> state p = s"
  by (simp add: jump_view_def)

lemma view_Player_update:
  assumes "jump_view p = (JUMPING, h, v, 0)"
  shows "jump_view (Player_update p) =
           (if fadd (fadd h 0) v \<le> 0 then (RUNNING, 0, 0, 0)
            else (JUMPING, fadd (fadd h 0) v, fsub v (rnd (12 / 10)), 0))"
proof -
  let ?p0 = "p\<lparr>position := Vector3_add (position p) (velocity p)\<rparr>"
  from assms have f: "state p = JUMPING" "vy (position p) = h" "jump_velocity p = v"
    "vy (velocity p) = 0" by (simp_all add: jump_view_def)
  have v0: "jump_view ?p0 = (JUMPING, fadd h 0, v, 0)" by (simp add: view_move f)
  then have s0: "state ?p0 = JUMPING" "vy (position ?p0) = fadd h 0" "jump_velocity ?p0 = v"
    "vy (velocity ?p0) = 0" by (simp_all add: jump_view_def)
  let ?p1 = "update_jumping ?p0"
  have v1: "jump_view ?p1 =
           (if fadd (fadd h 0) v \<le> 0 then (RUNNING, 0, 0, 0)
            else (JUMPING, fadd (fadd h 0) v, fsub v (rnd (12 / 10)), 0))"
    using view_jumping[OF s0(1)] by (simp only: s0)
  then have s1: "state ?p1 = RUNNING \<or> state ?p1 = JUMPING"
    by (auto simp: jump_view_def split: if_splits)
  then have a: "state ?p1 \<noteq> SLIDING" by auto
  have v2: "jump_view (update_sliding ?p1) = jump_view ?p1" by (rule view_sliding[OF a])
  then have "state (update_sliding ?p1) = state ?p1" by (simp add: jump_view_def)
  with s1 have b: "state (update_sliding ?p1) \<noteq> TURNING_LEFT"
    "state (update_sliding ?p1) \<noteq> TURNING_RIGHT" by auto
  have v3: "jump_view (update_turning (update_sliding ?p1)) = jump_view ?p1"
    using view_turning[OF b] v2 by simp
  show ?thesis
    unfolding Player_update_def view_timers view_lane_x v3 by (rule v1)
qed

lemma jumping_start:
  assumes "state p = RUNNING" "vy (position p) = 0" "vy (velocity p) = 0"
  shows "jumping_at 0 (jump p) 0 18"
  using assms by (simp add: jumping_at_def jump_view_def jump_def)

lemma jumping_step:
  assumes "jumping_at n p h v" "fadd (fadd h 0) v = h'" "fsub v (rnd (12 / 10)) = v'" "0 < h'"
  shows "jumping_at (n + 1) p h' v'"
proof -
  from assms(1) have "jump_view ((Player_update ^^ n) p) = (JUMPING, h, v, 0)"
    by (simp add: jumping_at_def)
  from view_Player_update[OF this] assms(2-4) show ?thesis
    by (simp add: jumping_at_def)
qed

lemma jumping_lands:
  assumes "jumping_at n p h v" "fadd (fadd h 0) v = h'" "h' \<le> 0"
  shows "height_after (n + 1) p = 0 \<and> state_after (n + 1) p = RUNNING"
proof -
  from assms(1) have "jump_view ((Player_update ^^ n) p) = (JUMPING, h, v, 0)"
    by (simp add: jumping_at_def)
  from view_Player_update[OF this] assms(2,3)
  have "jump_view ((Player_update ^^ Suc n) p) = (RUNNING, 0, 0, 0)" by simp
  then show ?thesis by (simp add: jump_view_def height_after_def state_after_def)
qed

lemma jumping_at_height: "jumping_at n p h v \<Longrightarrow> height_after n p = h \<and> state_after n p = JUMPING"
  by (simp add: jumping_at_def jump_view_def height_after_def state_after_def)

lemma arc_h:
  "fadd (fadd 0 0) 18 = 18"
  "fadd (fadd 18 0) (4728779608739021 / 281474976710656) = 2448832297382707 / 70368744177664"
  "fadd (fadd (2448832297382707 / 70368744177664) 0) (2195504818343117 / 140737488355328) = 7093169413108531 / 140737488355328"
  "fadd (fadd (7093169413108531 / 140737488355328) 0) (4053239664633447 / 281474976710656) = 4559894622712627 / 70368744177664"
  "fadd (fadd (4559894622712627 / 70368744177664) 0) (928867423145165 / 70368744177664) = 78"
  "fadd (fadd 78 0) (3377699720527873 / 281474976710656) = 90"
  "fadd (fadd 90 0) (1519964874237543 / 140737488355328) = 1773292353277133 / 17592186044416"
  "fadd (fadd (1773292353277133 / 17592186044416) 0) (2702159776422299 / 281474976710656) = 7768709357214107 / 70368744177664"
  "fadd (fadd (7768709357214107 / 70368744177664) 0) (295548725546189 / 35184372088832) = 8359806808306485 / 70368744177664"
  "fadd (fadd (8359806808306485 / 70368744177664) 0) (8106479329266899 / 1125899906842624) = 4433230883192833 / 35184372088832"
  "fadd (fadd (4433230883192833 / 35184372088832) 0) (3377699720527875 / 562949953421312) = 4644337115725825 / 35184372088832"
  "fadd (fadd (4644337115725825 / 35184372088832) 0) (5404319552844601 / 1125899906842624) = 4813222101752219 / 35184372088832"
  "fadd (fadd (4813222101752219 / 35184372088832) 0) (1013309916158363 / 281474976710656) = 2469942920636007 / 17592186044416"
  "fadd (fadd (2469942920636007 / 17592186044416) 0) (2702159776422303 / 1125899906842624) = 5024328334285211 / 35184372088832"
  "fadd (fadd (5024328334285211 / 35184372088832) 0) (5404319552844617 / 4503599627370496) = 2533274790395905 / 17592186044416"
  "fadd (fadd (2533274790395905 / 17592186044416) 0) (11 / 2251799813685248) = 2533274790395905 / 17592186044416"
  "fadd (fadd (2533274790395905 / 17592186044416) 0) (- (5404319552844573 / 4503599627370496)) = 1256082083571303 / 8796093022208"
  "fadd (fadd (1256082083571303 / 8796093022208) 0) (- (675539944105573 / 281474976710656)) = 4939885841272015 / 35184372088832"
  "fadd (fadd (4939885841272015 / 35184372088832) 0) (- (4053239664633441 / 1125899906842624)) = 1203305525438055 / 8796093022208"
  "fadd (fadd (1203305525438055 / 8796093022208) 0) (- (2702159776422295 / 562949953421312)) = 4644337115725827 / 35184372088832"
  "fadd (fadd (4644337115725827 / 35184372088832) 0) (- (6755399441055739 / 1125899906842624)) = 4433230883192835 / 35184372088832"
  "fadd (fadd (4433230883192835 / 35184372088832) 0) (- (1013309916158361 / 140737488355328)) = 4179903404153245 / 35184372088832"
  "fadd (fadd (4179903404153245 / 35184372088832) 0) (- (2364389804369509 / 281474976710656)) = 7768709357214113 / 70368744177664"
  "fadd (fadd (7768709357214113 / 70368744177664) 0) (- (337769972052787 / 35184372088832)) = 7093169413108539 / 70368744177664"
  "fadd (fadd (7093169413108539 / 70368744177664) 0) (- (3039929748475083 / 281474976710656)) = 791648371998721 / 8796093022208"
  "fadd (fadd (791648371998721 / 8796093022208) 0) (- (1688849860263935 / 140737488355328)) = 686095255732225 / 8796093022208"
  "fadd (fadd (686095255732225 / 8796093022208) 0) (- (3715469692580657 / 281474976710656)) = 1139973655678159 / 17592186044416"
  "fadd (fadd (1139973655678159 / 17592186044416) 0) (- (1013309916158361 / 70368744177664)) = 3546584706554275 / 70368744177664"
  "fadd (fadd (3546584706554275 / 70368744177664) 0) (- (4391009636686231 / 281474976710656)) = 2448832297382717 / 70368744177664"
  "fadd (fadd (2448832297382717 / 70368744177664) 0) (- (2364389804369509 / 140737488355328)) = 2533274790395925 / 140737488355328"
  "fadd (fadd (2533274790395925 / 140737488355328) 0) (- (5066549580791805 / 281474976710656)) = 45 / 281474976710656"
  "fadd (fadd (45 / 281474976710656) 0) (- (337769972052787 / 17592186044416)) = - (5404319552844547 / 281474976710656)"
  by code_simp+

lemma arc_v:
  "fsub 18 (rnd (12 / 10)) = 4728779608739021 / 281474976710656"
  "fsub (4728779608739021 / 281474976710656) (rnd (12 / 10)) = 2195504818343117 / 140737488355328"
  "fsub (2195504818343117 / 140737488355328) (rnd (12 / 10)) = 4053239664633447 / 281474976710656"
  "fsub (4053239664633447 / 281474976710656) (rnd (12 / 10)) = 928867423145165 / 70368744177664"
  "fsub (928867423145165 / 70368744177664) (rnd (12 / 10)) = 3377699720527873 / 281474976710656"
  "fsub (3377699720527873 / 281474976710656) (rnd (12 / 10)) = 1519964874237543 / 140737488355328"
  "fsub (1519964874237543 / 140737488355328) (rnd (12 / 10)) = 2702159776422299 / 281474976710656"
  "fsub (2702159776422299 / 281474976710656) (rnd (12 / 10)) = 295548725546189 / 35184372088832"
  "fsub (295548725546189 / 35184372088832) (rnd (12 / 10)) = 8106479329266899 / 1125899906842624"
  "fsub (8106479329266899 / 1125899906842624) (rnd (12 / 10)) = 3377699720527875 / 562949953421312"
  "fsub (3377699720527875 / 562949953421312) (rnd (12 / 10)) = 5404319552844601 / 1125899906842624"
  "fsub (5404319552844601 / 1125899906842624) (rnd (12 / 10)) = 1013309916158363 / 281474976710656"
  "fsub (1013309916158363 / 281474976710656) (rnd (12 / 10)) = 2702159776422303 / 1125899906842624"
  "fsub (2702159776422303 / 1125899906842624) (rnd (12 / 10)) = 5404319552844617 / 4503599627370496"
  "fsub (5404319552844617 / 4503599627370496) (rnd (12 / 10)) = 11 / 2251799813685248"
  "fsub (11 / 2251799813685248) (rnd (12 / 10)) = - (5404319552844573 / 4503599627370496)"
  "fsub (- (5404319552844573 / 4503599627370496)) (rnd (12 / 10)) = - (675539944105573 / 281474976710656)"
  "fsub (- (675539944105573 / 281474976710656)) (rnd (12 / 10)) = - (4053239664633441 / 1125899906842624)"
  "fsub (- (4053239664633441 / 1125899906842624)) (rnd (12 / 10)) = - (2702159776422295 / 562949953421312)"
  "fsub (- (2702159776422295 / 562949953421312)) (rnd (12 / 10)) = - (6755399441055739 / 1125899906842624)"
  "fsub (- (6755399441055739 / 1125899906842624)) (rnd (12 / 10)) = - (1013309916158361 / 140737488355328)"
  "fsub (- (1013309916158361 / 140737488355328)) (rnd (12 / 10)) = - (2364389804369509 / 281474976710656)"
  "fsub (- (2364389804369509 / 281474976710656)) (rnd (12 / 10)) = - (337769972052787 / 35184372088832)"
  "fsub (- (337769972052787 / 35184372088832)) (rnd (12 / 10)) = - (3039929748475083 / 281474976710656)"
  "fsub (- (3039929748475083 / 281474976710656)) (rnd (12 / 10)) = - (1688849860263935 / 140737488355328)"
  "fsub (- (1688849860263935 / 140737488355328)) (rnd (12 / 10)) = - (3715469692580657 / 281474976710656)"
  "fsub (- (3715469692580657 / 281474976710656)) (rnd (12 / 10)) = - (1013309916158361 / 70368744177664)"
  "fsub (- (1013309916158361 / 70368744177664)) (rnd (12 / 10)) = - (4391009636686231 / 281474976710656)"
  "fsub (- (4391009636686231 / 281474976710656)) (rnd (12 / 10)) = - (2364389804369509 / 140737488355328)"
  "fsub (- (2364389804369509 / 140737488355328)) (rnd (12 / 10)) = - (5066549580791805 / 281474976710656)"
  "fsub (- (5066549580791805 / 281474976710656)) (rnd (12 / 10)) = - (337769972052787 / 17592186044416)"
  by code_simp+

lemma jump_trace:
  assumes "state p = RUNNING" "vy (position p) = 0" "vy (velocity p) = 0"
  shows
    "jumping_at 0 (jump p) 0 18"
    "jumping_at 1 (jump p) 18 (4728779608739021 / 281474976710656)"
    "jumping_at 2 (jump p) (2448832297382707 / 70368744177664) (2195504818343117 / 140737488355328)"
    "jumping_at 3 (jump p) (7093169413108531 / 140737488355328) (4053239664633447 / 281474976710656)"
    "jumping_at 4 (jump p) (4559894622712627 / 70368744177664) (928867423145165 / 70368744177664)"
    "jumping_at 5 (jump p) 78 (3377699720527873 / 281474976710656)"
    "jumping_at 6 (jump p) 90 (1519964874237543 / 140737488355328)"
    "jumping_at 7 (jump p) (1773292353277133 / 17592186044416) (2702159776422299 / 281474976710656)"
    "jumping_at 8 (jump p) (7768709357214107 / 70368744177664) (295548725546189 / 35184372088832)"
    "jumping_at 9 (jump p) (8359806808306485 / 70368744177664) (8106479329266899 / 1125899906842624)"
    "jumping_at 10 (jump p) (4433230883192833 / 35184372088832) (3377699720527875 / 562949953421312)"
    "jumping_at 11 (jump p) (4644337115725825 / 35184372088832) (5404319552844601 / 1125899906842624)"
    "jumping_at 12 (jump p) (4813222101752219 / 35184372088832) (1013309916158363 / 281474976710656)"
    "jumping_at 13 (jump p) (2469942920636007 / 17592186044416) (2702159776422303 / 1125899906842624)"
    "jumping_at 14 (jump p) (5024328334285211 / 35184372088832) (5404319552844617 / 4503599627370496)"
    "jumping_at 15 (jump p) (2533274790395905 / 17592186044416) (11 / 2251799813685248)"
    "jumping_at 16 (jump p) (2533274790395905 / 17592186044416) (- (5404319552844573 / 4503599627370496))"
    "jumping_at 17 (jump p) (1256082083571303 / 8796093022208) (- (675539944105573 / 281474976710656))"
    "jumping_at 18 (jump p) (4939885841272015 / 35184372088832) (- (4053239664633441 / 1125899906842624))"
    "jumping_at 19 (jump p) (1203305525438055 / 8796093022208) (- (2702159776422295 / 562949953421312))"
    "jumping_at 20 (jump p) (4644337115725827 / 35184372088832) (- (6755399441055739 / 1125899906842624))"
    "jumping_at 21 (jump p) (4433230883192835 / 35184372088832) (- (1013309916158361 / 140737488355328))"
    "jumping_at 22 (jump p) (4179903404153245 / 35184372088832) (- (2364389804369509 / 281474976710656))"
    "jumping_at 23 (jump p) (7768709357214113 / 70368744177664) (- (337769972052787 / 35184372088832))"
    "jumping_at 24 (jump p) (7093169413108539 / 70368744177664) (- (3039929748475083 / 281474976710656))"
    "jumping_at 25 (jump p) (791648371998721 / 8796093022208) (- (1688849860263935 / 140737488355328))"
    "jumping_at 26 (jump p) (686095255732225 / 8796093022208) (- (3715469692580657 / 281474976710656))"
    "jumping_at 27 (jump p) (1139973655678159 / 17592186044416) (- (1013309916158361 / 70368744177664))"
    "jumping_at 28 (jump p) (3546584706554275 / 70368744177664) (- (4391009636686231 / 281474976710656))"
    "jumping_at 29 (jump p) (2448832297382717 / 70368744177664) (- (2364389804369509 / 140737488355328))"
    "jumping_at 30 (jump p) (2533274790395925 / 140737488355328) (- (5066549580791805 / 281474976710656))"
    "jumping_at 31 (jump p) (45 / 281474976710656) (- (337769972052787 / 17592186044416))"
    "height_after 32 (jump p) = 0 \<and> state_after 32 (jump p) = RUNNING"
proof -
  show j0: "jumping_at 0 (jump p) 0 18" by (rule jumping_start[OF assms])
  show j1: "jumping_at 1 (jump p) 18 (4728779608739021 / 281474976710656)"
    using jumping_step[OF j0 arc_h(1) arc_v(1)] by simp
  show j2: "jumping_at 2 (jump p) (2448832297382707 / 70368744177664) (2195504818343117 / 140737488355328)"
    using jumping_step[OF j1 arc_h(2) arc_v(2)] by (simp add: numeral_2_eq_2)
  show j3: "jumping_at 3 (jump p) (7093169413108531 / 140737488355328) (4053239664633447 / 281474976710656)"
    using jumping_step[OF j2 arc_h(3) arc_v(3)] by simp
  show j4: "jumping_at 4 (jump p) (4559894622712627 / 70368744177664) (928867423145165 / 70368744177664)"
    using jumping_step[OF j3 arc_h(4) arc_v(4)] by simp
  show j5: "jumping_at 5 (jump p) 78 (3377699720527873 / 281474976710656)"
    using jumping_step[OF j4 arc_h(5) arc_v(5)] by simp
  show j6: "jumping_at 6 (jump p) 90 (1519964874237543 / 140737488355328)"
    using jumping_step[OF j5 arc_h(6) arc_v(6)] by simp
  show j7: "jumping_at 7 (jump p) (1773292353277133 / 17592186044416) (2702159776422299 / 281474976710656)"
    using jumping_step[OF j6 arc_h(7) arc_v(7)] by simp
  show j8: "jumping_at 8 (jump p) (7768709357214107 / 70368744177664) (295548725546189 / 35184372088832)"
    using jumping_step[OF j7 arc_h(8) arc_v(8)] by simp
  show j9: "jumping_at 9 (jump p) (8359806808306485 / 70368744177664) (8106479329266899 / 1125899906842624)"
    using jumping_step[OF j8 arc_h(9) arc_v(9)] by simp
  show j10: "jumping_at 10 (jump p) (4433230883192833 / 35184372088832) (3377699720527875 / 562949953421312)"
    using jumping_step[OF j9 arc_h(10) arc_v(10)] by simp
  show j11: "jumping_at 11 (jump p) (4644337115725825 / 35184372088832) (5404319552844601 / 1125899906842624)"
    using jumping_step[OF j10 arc_h(11) arc_v(11)] by simp
  show j12: "jumping_at 12 (jump p) (4813222101752219 / 35184372088832) (1013309916158363 / 281474976710656)"
    using jumping_step[OF j11 arc_h(12) arc_v(12)] by simp
  show j13: "jumping_at 13 (jump p) (2469942920636007 / 17592186044416) (2702159776422303 / 1125899906842624)"
    using jumping_step[OF j12 arc_h(13) arc_v(13)] by simp
  show j14: "jumping_at 14 (jump p) (5024328334285211 / 35184372088832) (5404319552844617 / 4503599627370496)"
    using jumping_step[OF j13 arc_h(14) arc_v(14)] by simp
  show j15: "jumping_at 15 (jump p) (2533274790395905 / 17592186044416) (11 / 2251799813685248)"
    using jumping_step[OF j14 arc_h(15) arc_v(15)] by simp
  show j16: "jumping_at 16 (jump p) (2533274790395905 / 17592186044416) (- (5404319552844573 / 4503599627370496))"
    using jumping_step[OF j15 arc_h(16) arc_v(16)] by simp
  show j17: "jumping_at 17 (jump p) (1256082083571303 / 8796093022208) (- (675539944105573 / 281474976710656))"
    using jumping_step[OF j16 arc_h(17) arc_v(17)] by simp
  show j18: "jumping_at 18 (jump p) (4939885841272015 / 35184372088832) (- (4053239664633441 / 1125899906842624))"
    using jumping_step[OF j17 arc_h(18) arc_v(18)] by simp
  show j19: "jumping_at 19 (jump p) (1203305525438055 / 8796093022208) (- (2702159776422295 / 562949953421312))"
    using jumping_step[OF j18 arc_h(19) arc_v(19)] by simp
  show j20: "jumping_at 20 (jump p) (4644337115725827 / 35184372088832) (- (6755399441055739 / 1125899906842624))"
    using jumping_step[OF j19 arc_h(20) arc_v(20)] by simp
  show j21: "jumping_at 21 (jump p) (4433230883192835 / 35184372088832) (- (1013309916158361 / 140737488355328))"
    using jumping_step[OF j20 arc_h(21) arc_v(21)] by simp
  show j22: "jumping_at 22 (jump p) (4179903404153245 / 35184372088832) (- (2364389804369509 / 281474976710656))"
    using jumping_step[OF j21 arc_h(22) arc_v(22)] by simp
  show j23: "jumping_at 23 (jump p) (7768709357214113 / 70368744177664) (- (337769972052787 / 35184372088832))"
    using jumping_step[OF j22 arc_h(23) arc_v(23)] by simp
  show j24: "jumping_at 24 (jump p) (7093169413108539 / 70368744177664) (- (3039929748475083 / 281474976710656))"
    using jumping_step[OF j23 arc_h(24) arc_v(24)] by simp
  show j25: "jumping_at 25 (jump p) (791648371998721 / 8796093022208) (- (1688849860263935 / 140737488355328))"
    using jumping_step[OF j24 arc_h(25) arc_v(25)] by simp
  show j26: "jumping_at 26 (jump p) (686095255732225 / 8796093022208) (- (3715469692580657 / 281474976710656))"
    using jumping_step[OF j25 arc_h(26) arc_v(26)] by simp
  show j27: "jumping_at 27 (jump p) (1139973655678159 / 17592186044416) (- (1013309916158361 / 70368744177664))"
    using jumping_step[OF j26 arc_h(27) arc_v(27)] by simp
  show j28: "jumping_at 28 (jump p) (3546584706554275 / 70368744177664) (- (4391009636686231 / 281474976710656))"
    using jumping_step[OF j27 arc_h(28) arc_v(28)] by simp
  show j29: "jumping_at 29 (jump p) (2448832297382717 / 70368744177664) (- (2364389804369509 / 140737488355328))"
    using jumping_step[OF j28 arc_h(29) arc_v(29)] by simp
  show j30: "jumping_at 30 (jump p) (2533274790395925 / 140737488355328) (- (5066549580791805 / 281474976710656))"
    using jumping_step[OF j29 arc_h(30) arc_v(30)] by simp
  show j31: "jumping_at 31 (jump p) (45 / 281474976710656) (- (337769972052787 / 17592186044416))"
    using jumping_step[OF j30 arc_h(31) arc_v(31)] by simp
  show "height_after 32 (jump p) = 0 \<and> state_after 32 (jump p) = RUNNING"
    using jumping_lands[OF j31 arc_h(32)] by simp
qed

lemma jump_heights:
  assumes "state p = RUNNING" "vy (position p) = 0" "vy (velocity p) = 0"
  shows
    "height_after 0 (jump p) = 0 \<and> state_after 0 (jump p) = JUMPING"
    "height_after 1 (jump p) = 18 \<and> state_after 1 (jump p) = JUMPING"
    "height_after 2 (jump p) = 2448832297382707 / 70368744177664 \<and> state_after 2 (jump p) = JUMPING"
    "height_after 3 (jump p) = 7093169413108531 / 140737488355328 \<and> state_after 3 (jump p) = JUMPING"
    "height_after 4 (jump p) = 4559894622712627 / 70368744177664 \<and> state_after 4 (jump p) = JUMPING"
    "height_after 5 (jump p) = 78 \<and> state_after 5 (jump p) = JUMPING"
    "height_after 6 (jump p) = 90 \<and> state_after 6 (jump p) = JUMPING"
    "height_after 7 (jump p) = 1773292353277133 / 17592186044416 \<and> state_after 7 (jump p) = JUMPING"
    "height_after 8 (jump p) = 7768709357214107 / 70368744177664 \<and> state_after 8 (jump p) = JUMPING"
    "height_after 9 (jump p) = 8359806808306485 / 70368744177664 \<and> state_after 9 (jump p) = JUMPING"
    "height_after 10 (jump p) = 4433230883192833 / 35184372088832 \<and> state_after 10 (jump p) = JUMPING"
    "height_after 11 (jump p) = 4644337115725825 / 35184372088832 \<and> state_after 11 (jump p) = JUMPING"
    "height_after 12 (jump p) = 4813222101752219 / 35184372088832 \<and> state_after 12 (jump p) = JUMPING"
    "height_after 13 (jump p) = 2469942920636007 / 17592186044416 \<and> state_after 13 (jump p) = JUMPING"
    "height_after 14 (jump p) = 5024328334285211 / 35184372088832 \<and> state_after 14 (jump p) = JUMPING"
    "height_after 15 (jump p) = 2533274790395905 / 17592186044416 \<and> state_after 15 (jump p) = JUMPING"
    "height_after 16 (jump p) = 2533274790395905 / 17592186044416 \<and> state_after 16 (jump p) = JUMPING"
    "height_after 17 (jump p) = 1256082083571303 / 8796093022208 \<and> state_after 17 (jump p) = JUMPING"
    "height_after 18 (jump p) = 4939885841272015 / 35184372088832 \<and> state_after 18 (jump p) = JUMPING"
    "height_after 19 (jump p) = 1203305525438055 / 8796093022208 \<and> state_after 19 (jump p) = JUMPING"
    "height_after 20 (jump p) = 4644337115725827 / 35184372088832 \<and> state_after 20 (jump p) = JUMPING"
    "height_after 21 (jump p) = 4433230883192835 / 35184372088832 \<and> state_after 21 (jump p) = JUMPING"
    "height_after 22 (jump p) = 4179903404153245 / 35184372088832 \<and> state_after 22 (jump p) = JUMPING"
    "height_after 23 (jump p) = 7768709357214113 / 70368744177664 \<and> state_after 23 (jump p) = JUMPING"
    "height_after 24 (jump p) = 7093169413108539 / 70368744177664 \<and> state_after 24 (jump p) = JUMPING"
    "height_after 25 (jump p) = 791648371998721 / 8796093022208 \<and> state_after 25 (jump p) = JUMPING"
    "height_after 26 (jump p) = 686095255732225 / 8796093022208 \<and> state_after 26 (jump p) = JUMPING"
    "height_after 27 (jump p) = 1139973655678159 / 17592186044416 \<and> state_after 27 (jump p) = JUMPING"
    "height_after 28 (jump p) = 3546584706554275 / 70368744177664 \<and> state_after 28 (jump p) = JUMPING"
    "height_after 29 (jump p) = 2448832297382717 / 70368744177664 \<and> state_after 29 (jump p) = JUMPING"
    "height_after 30 (jump p) = 2533274790395925 / 140737488355328 \<and> state_after 30 (jump p) = JUMPING"
    "height_after 31 (jump p) = 45 / 281474976710656 \<and> state_after 31 (jump p) = JUMPING"
proof -
  show "height_after 0 (jump p) = 0 \<and> state_after 0 (jump p) = JUMPING"
    by (rule jumping_at_height[OF jump_trace(1)[OF assms]])
  show "height_after 1 (jump p) = 18 \<and> state_after 1 (jump p) = JUMPING"
    by (rule jumping_at_height[OF jump_trace(2)[OF assms]])
  show "height_after 2 (jump p) = 2448832297382707 / 70368744177664 \<and> state_after 2 (jump p) = JUMPING"
    by (rule jumping_at_height[OF jump_trace(3)[OF assms]])
  show "height_after 3 (jump p) = 7093169413108531 / 140737488355328 \<and> state_after 3 (jump p) = JUMPING"
    by (rule jumping_at_height[OF jump_trace(4)[OF assms]])
  show "height_after 4 (jump p) = 4559894622712627 / 70368744177664 \<and> state_after 4 (jump p) = JUMPING"
    by (rule jumping_at_height[OF jump_trace(5)[OF assms]])
  show "height_after 5 (jump p) = 78 \<and> state_after 5 (jump p) = JUMPING"
    by (rule jumping_at_height[OF jump_trace(6)[OF assms]])
  show "height_after 6 (jump p) = 90 \<and> state_after 6 (jump p) = JUMPING"
    by (rule jumping_at_height[OF jump_trace(7)[OF assms]])
  show "height_after 7 (jump p) = 1773292353277133 / 17592186044416 \<and> state_after 7 (jump p) = JUMPING"
    by (rule jumping_at_height[OF jump_trace(8)[OF assms]])
  show "height_after 8 (jump p) = 7768709357214107 / 70368744177664 \<and> state_after 8 (jump p) = JUMPING"
    by (rule jumping_at_height[OF jump_trace(9)[OF assms]])
  show "height_after 9 (jump p) = 8359806808306485 / 70368744177664 \<and> state_after 9 (jump p) = JUMPING"
    by (rule jumping_at_height[OF jump_trace(10)[OF assms]])
  show "height_after 10 (jump p) = 4433230883192833 / 35184372088832 \<and> state_after 10 (jump p) = JUMPING"
    by (rule jumping_at_height[OF jump_trace(11)[OF assms]])
  show "height_after 11 (jump p) = 4644337115725825 / 35184372088832 \<and> state_after 11 (jump p) = JUMPING"
    by (rule jumping_at_height[OF jump_trace(12)[OF assms]])
  show "height_after 12 (jump p) = 4813222101752219 / 35184372088832 \<and> state_after 12 (jump p) = JUMPING"
    by (rule jumping_at_height[OF jump_trace(13)[OF assms]])
  show "height_after 13 (jump p) = 2469942920636007 / 17592186044416 \<and> state_after 13 (jump p) = JUMPING"
    by (rule jumping_at_height[OF jump_trace(14)[OF assms]])
  show "height_after 14 (jump p) = 5024328334285211 / 35184372088832 \<and> state_after 14 (jump p) = JUMPING"
    by (rule jumping_at_height[OF jump_trace(15)[OF assms]])
  show "height_after 15 (jump p) = 2533274790395905 / 17592186044416 \<and> state_after 15 (jump p) = JUMPING"
    by (rule jumping_at_height[OF jump_trace(16)[OF assms]])
  show "height_after 16 (jump p) = 2533274790395905 / 17592186044416 \<and> state_after 16 (jump p) = JUMPING"
    by (rule jumping_at_height[OF jump_trace(17)[OF assms]])
  show "height_after 17 (jump p) = 1256082083571303 / 8796093022208 \<and> state_after 17 (jump p) = JUMPING"
    by (rule jumping_at_height[OF jump_trace(18)[OF assms]])
  show "height_after 18 (jump p) = 4939885841272015 / 35184372088832 \<and> state_after 18 (jump p) = JUMPING"
    by (rule jumping_at_height[OF jump_trace(19)[OF assms]])
  show "height_after 19 (jump p) = 1203305525438055 / 8796093022208 \<and> state_after 19 (jump p) = JUMPING"
    by (rule jumping_at_height[OF jump_trace(20)[OF assms]])
  show "height_after 20 (jump p) = 4644337115725827 / 35184372088832 \<and> state_after 20 (jump p) = JUMPING"
    by (rule jumping_at_height[OF jump_trace(21)[OF assms]])
  show "height_after 21 (jump p) = 4433230883192835 / 35184372088832 \<and> state_after 21 (jump p) = JUMPING"
    by (rule jumping_at_height[OF jump_trace(22)[OF assms]])
  show "height_after 22 (jump p) = 4179903404153245 / 35184372088832 \<and> state_after 22 (jump p) = JUMPING"
    by (rule jumping_at_height[OF jump_trace(23)[OF assms]])
  show "height_after 23 (jump p) = 7768709357214113 / 70368744177664 \<and> state_after 23 (jump p) = JUMPING"
    by (rule jumping_at_height[OF jump_trace(24)[OF assms]])
  show "height_after 24 (jump p) = 7093169413108539 / 70368744177664 \<and> state_after 24 (jump p) = JUMPING"
    by (rule jumping_at_height[OF jump_trace(25)[OF assms]])
  show "height_after 25 (jump p) = 791648371998721 / 8796093022208 \<and> state_after 25 (jump p) = JUMPING"
    by (rule jumping_at_height[OF jump_trace(26)[OF assms]])
  show "height_after 26 (jump p) = 686095255732225 / 8796093022208 \<and> state_after 26 (jump p) = JUMPING"
    by (rule jumping_at_height[OF jump_trace(27)[OF assms]])
  show "height_after 27 (jump p) = 1139973655678159 / 17592186044416 \<and> state_after 27 (jump p) = JUMPING"
    by (rule jumping_at_height[OF jump_trace(28)[OF assms]])
  show "height_after 28 (jump p) = 3546584706554275 / 70368744177664 \<and> state_after 28 (jump p) = JUMPING"
    by (rule jumping_at_height[OF jump_trace(29)[OF assms]])
  show "height_after 29 (jump p) = 2448832297382717 / 70368744177664 \<and> state_after 29 (jump p) = JUMPING"
    by (rule jumping_at_height[OF jump_trace(30)[OF assms]])
  show "height_after 30 (jump p) = 2533274790395925 / 140737488355328 \<and> state_after 30 (jump p) = JUMPING"
    by (rule jumping_at_height[OF jump_trace(31)[OF assms]])
  show "height_after 31 (jump p) = 45 / 281474976710656 \<and> state_after 31 (jump p) = JUMPING"
    by (rule jumping_at_height[OF jump_trace(32)[OF assms]])
qed

lemma upt_ticks:
  "[0..<16] = [0, 1, 2, 3, 4, 5, 6, 7, 8, 9, 10, 11, 12, 13, 14, 15]"
  "[16..<33] = [16, 17, 18, 19, 20, 21, 22, 23, 24, 25, 26, 27, 28, 29, 30, 31, 32]"
  "[1..<32] = [1, 2, 3, 4, 5, 6, 7, 8, 9, 10, 11, 12, 13, 14, 15, 16, 17, 18, 19, 20, 21, 22, 23, 24, 25, 26, 27, 28, 29, 30, 31]"
  by code_simp+

text \<open>
  C6, as stated, fails: the height does not strictly increase and then strictly decrease.
  After the fifteenth update the vertical velocity is about \<open>4.9e-15\<close>, the sixteenth
  update adds it to \<open>144.00000000000006\<close> and rounding absorbs it, so the heights after
  fifteen and after sixteen updates are equal.
\<close>

theorem C6_counterexample:
  "state Player_init = RUNNING \<and> vy (position Player_init) = 0 \<and>
   height_after 15 (jump Player_init) = 2533274790395905 / 17592186044416 \<and>
   height_after 16 (jump Player_init) = 2533274790395905 / 17592186044416"
proof -
  have a: "state Player_init = RUNNING" "vy (position Player_init) = 0"
    "vy (velocity Player_init) = 0" by (simp_all add: Player_init_def)
  from jump_heights(16)[OF a] jump_heights(17)[OF a] a show ?thesis by simp
qed

text \<open>
  C6, amended. From a Running player at height 0 (and no vertical velocity of its own),
  \<open>jump\<close> followed by updates gives: the height strictly increases over updates 0 to 15,
  update 16 leaves it unchanged at the apex \<open>144.00000000000006\<close>, it strictly decreases
  over updates 16 to 32, it is positive and the state Jumping after each of the updates 1
  to 31, and after update 32, the first that takes the height to zero or below, the height
  is exactly 0 and the state Running.
\<close>

theorem C6_jump_arc:
  assumes "state p = RUNNING" "vy (position p) = 0" "vy (velocity p) = 0"
  shows "sorted_wrt (<) (map (\<lambda>n. height_after n (jump p)) [0..<16]) \<and>
         height_after 16 (jump p) = height_after 15 (jump p) \<and>
         height_after 15 (jump p) = 2533274790395905 / 17592186044416 \<and>
         sorted_wrt (>) (map (\<lambda>n. height_after n (jump p)) [16..<33]) \<and>
         list_all (\<lambda>n. 0 < height_after n (jump p) \<and> state_after n (jump p) = JUMPING) [1..<32] \<and>
         height_after 32 (jump p) = 0 \<and> state_after 32 (jump p) = RUNNING"
proof -
  note h = jump_heights[OF assms] jump_trace(33)[OF assms]
  have a: "sorted_wrt (<) (map (\<lambda>n. height_after n (jump p)) [0..<16])"
    unfolding upt_ticks by (simp add: h del: One_nat_def)
  have b: "sorted_wrt (>) (map (\<lambda>n. height_after n (jump p)) [16..<33])"
    unfolding upt_ticks by (simp add: h del: One_nat_def)
  have c: "list_all (\<lambda>n. 0 < height_after n (jump p) \<and> state_after n (jump p) = JUMPING) [1..<32]"
    unfolding upt_ticks by (simp add: h del: One_nat_def)
  from a b c h show ?thesis by simp
qed

theorem C6_jump_arc_witness:
  "state Player_init = RUNNING \<and> vy (position Player_init) = 0 \<and>
   vy (velocity Player_init) = 0 \<and>
   height_after 16 (jump Player_init) = height_after 15 (jump Player_init) \<and>
   height_after 15 (jump Player_init) = 2533274790395905 / 17592186044416 \<and>
   height_after 32 (jump Player_init) = 0 \<and> state_after 32 (jump Player_init) = RUNNING"
proof -
  have a: "state Player_init = RUNNING" "vy (position Player_init) = 0"
    "vy (velocity Player_init) = 0" by (simp_all add: Player_init_def)
  from C6_jump_arc[OF a] a show ?thesis by blast
qed

end
